theory Spec2Isabelle
  imports Main "HOL-Library.Word"
begin

unbundle bit_operations_syntax

section \<open>MAX32650 UART driver (maxim\_uart.c)\<close>

text \<open>
  The driver is embedded function by function. Every C function that changes memory or
  the peripheral takes the system state \<open>sys\<close> and returns the new one together with
  its \<open>int32_t\<close> result. Pointers are addresses (\<open>None\<close> is the null pointer); memory
  is typed and total, and the set \<open>live\<close> records which blocks are currently allocated.
\<close>

subsection \<open>Integer types and error codes\<close>

type_synonym u8 = "8 word"
type_synonym u32 = "32 word"
type_synonym addr = nat

text \<open>errno.h and mxc\_errors.h are not among the sources; the codes keep their usual values.\<close>

definition EIO :: int where "EIO = 5"
definition EAGAIN :: int where "EAGAIN = 11"
definition ENOMEM :: int where "ENOMEM = 12"
definition EBUSY :: int where "EBUSY = 16"
definition EINVAL :: int where "EINVAL = 22"
definition E_SUCCESS :: int where "E_SUCCESS = 0"
definition E_NO_ERROR :: int where "E_NO_ERROR = 0"
definition E_BUSY :: int where "E_BUSY = - 6"

definition MXC_UART_FIFO_DEPTH :: u32 where "MXC_UART_FIFO_DEPTH = 32"
definition MXC_UART_INSTANCES :: nat where "MXC_UART_INSTANCES = 3"

text \<open>The conversion of a \<open>uint32_t\<close> loop counter to the \<open>int32_t\<close> result.\<close>

definition i32_of_u32 :: "nat \<Rightarrow> int" where
  "i32_of_u32 i = sint (word_of_nat i :: u32)"

subsection \<open>Pointers to bytes\<close>

text \<open>
  A byte pointer is either the address of the driver's static scratch byte \<open>c\<close> or an
  address inside a caller's buffer.
\<close>

datatype byte_ptr = Addr_c | Addr_buf nat

fun ptr_add :: "byte_ptr \<Rightarrow> u32 \<Rightarrow> byte_ptr" where
  "ptr_add Addr_c k = Addr_c"
| "ptr_add (Addr_buf a) k = Addr_buf (a + unat k)"

subsection \<open>The lock-free 256-entry byte queue\<close>

text \<open>
  Modelled from the spec: no\_os\_lf256fifo.c is not among the sources. The ByteQueue is a
  ring of 256 byte slots with a write index and a read index that advance independently
  and wrap around; it is empty when the indices are equal and full when the write index
  would equal the read index after its next advance (one slot stays reserved, so a full
  queue holds 255 bytes). \<open>lf256fifo_write\<close> is the spec's push (\<open>None\<close> is
  \<open>Full\<close>) and \<open>lf256fifo_read\<close> its pop (\<open>None\<close> is \<open>Empty\<close>); a failing call
  changes nothing. The driver tests both results for zero only.
\<close>

record lf256fifo =
  slots :: "u8 \<Rightarrow> u8"
  write_index :: u8
  read_index :: u8

definition lf256fifo_new :: lf256fifo where
  "lf256fifo_new = \<lparr>slots = (\<lambda>_. 0), write_index = 0, read_index = 0\<rparr>"

definition lf256fifo_is_full :: "lf256fifo \<Rightarrow> bool" where
  "lf256fifo_is_full f = (write_index f + 1 = read_index f)"

definition lf256fifo_is_empty :: "lf256fifo \<Rightarrow> bool" where
  "lf256fifo_is_empty f = (write_index f = read_index f)"

definition lf256fifo_read :: "lf256fifo \<Rightarrow> (u8 \<times> lf256fifo) option" where
  "lf256fifo_read f =
     (if lf256fifo_is_empty f then None
      else Some (slots f (read_index f), f\<lparr>read_index := read_index f + 1\<rparr>))"

definition lf256fifo_write :: "lf256fifo \<Rightarrow> u8 \<Rightarrow> lf256fifo option" where
  "lf256fifo_write f b =
     (if lf256fifo_is_full f then None
      else Some (f\<lparr>slots := (slots f)(write_index f := b), write_index := write_index f + 1\<rparr>))"

subsection \<open>Descriptors\<close>

text \<open>
  The structures of no\_os\_uart.h, maxim\_uart.h and the vendor's uart.h, with the fields
  the driver touches. An enumeration carries one more constructor for every value outside
  the named ones, which is what the \<open>default\<close> branch of a \<open>switch\<close> receives.
\<close>

datatype no_os_uart_size =
  NO_OS_UART_CS_5 | NO_OS_UART_CS_6 | NO_OS_UART_CS_7 | NO_OS_UART_CS_8 | NO_OS_UART_CS_other int

datatype no_os_uart_parity =
  NO_OS_UART_PAR_NO | NO_OS_UART_PAR_MARK | NO_OS_UART_PAR_SPACE | NO_OS_UART_PAR_ODD
  | NO_OS_UART_PAR_EVEN | NO_OS_UART_PAR_other int

datatype no_os_uart_stop =
  NO_OS_UART_STOP_1_BIT | NO_OS_UART_STOP_2_BIT | NO_OS_UART_STOP_other int

datatype max_uart_flow_ctrl =
  UART_FLOW_DIS | UART_FLOW_LOW | UART_FLOW_HIGH | UART_FLOW_other int

datatype mxc_gpio_vssel_t = MXC_GPIO_VSSEL_VDDIO | MXC_GPIO_VSSEL_VDDIOH

datatype mxc_uart_parity_t =
  MXC_UART_PARITY_DISABLE | MXC_UART_PARITY_MARK | MXC_UART_PARITY_SPACE
  | MXC_UART_PARITY_ODD | MXC_UART_PARITY_EVEN

datatype mxc_uart_stop_t = MXC_UART_STOP_1 | MXC_UART_STOP_2

datatype mxc_uart_flow_t = MXC_UART_FLOW_DIS | MXC_UART_FLOW_EN_LOW | MXC_UART_FLOW_EN_HIGH

record max_uart_init_param =
  flow :: max_uart_flow_ctrl
  vssel :: mxc_gpio_vssel_t

record no_os_uart_init_param =
  ip_device_id :: nat
  ip_baud_rate :: nat
  ip_size :: no_os_uart_size
  ip_parity :: no_os_uart_parity
  ip_stop :: no_os_uart_stop
  ip_asynchronous_rx :: bool
  ip_extra :: "max_uart_init_param option"

record no_os_uart_desc =
  device_id :: nat
  baud_rate :: nat
  rx_fifo :: "addr option"
  extra :: "addr option"

record max_uart_desc =
  nvic :: "addr option"

text \<open>Function pointers: the completion callback of maxim\_irq.c and the receive handler.\<close>

datatype mxc_uart_complete_cb_t = max_uart_callback

datatype irq_handler = Fn_uart_rx_callback

record mxc_uart_req_t =
  uart :: nat
  txData :: "byte_ptr option"
  rxData :: "byte_ptr option"
  txLen :: u32
  rxLen :: u32
  txCnt :: u32
  rxCnt :: u32
  callback :: "mxc_uart_complete_cb_t option"

datatype IRQn_Type = UART_IRQn nat

datatype no_os_irq_event = NO_OS_EVT_UART_RX_COMPLETE

datatype no_os_irq_peripheral = NO_OS_UART_IRQ

record no_os_callback_desc =
  cb_callback :: irq_handler
  cb_ctx :: addr
  cb_event :: no_os_irq_event
  cb_peripheral :: no_os_irq_peripheral
  cb_handle :: nat

subsection \<open>The peripheral and the system state\<close>

text \<open>
  Modelled from the spec: the vendor SDK (the hardware-register layer with configure,
  begin\_transfer, poll\_ready and shutdown) is not among the sources. The peripheral is
  the trace of the SDK calls made so far, in order, and for every UART the asynchronous
  request it holds in flight: a pointer to a slot of \<open>uart_irq_state\<close>, kept as the
  slot's index, so the peripheral sees every later write to that slot.
\<close>

datatype sdk_call =
  Call_UART_Init nat nat
  | Call_GPIO_Config nat mxc_gpio_vssel_t
  | Call_UART_SetDataSize nat int
  | Call_UART_SetParity nat mxc_uart_parity_t
  | Call_UART_SetStopBits nat mxc_uart_stop_t
  | Call_UART_SetFlowCtrl nat mxc_uart_flow_t int
  | Call_UART_Shutdown nat
  | Call_UART_TransactionAsync nat
  | Call_UART_GetStatus nat
  | Call_UART_Write nat byte_ptr u32
  | Call_UART_Read nat u32

record mxc_hw =
  calls :: "sdk_call list"
  async_req :: "nat \<Rightarrow> nat option"

text \<open>
  The blocking SDK calls depend on what the line does while the driver waits; they are
  parameters of the model. \<open>MXC_UART_Write\<close> and \<open>MXC_UART_Read\<close> return the SDK's
  result code and the length they store back through the \<open>len\<close> pointer;
  \<open>MXC_UART_Read\<close> also returns the bytes it stored into the buffer.
\<close>

record mxc_sdk =
  MXC_UART_GetStatus :: "mxc_hw \<Rightarrow> nat \<Rightarrow> u32 \<times> mxc_hw"
  MXC_F_UART_STAT_TX_EMPTY :: u32
  MXC_UART_Write :: "mxc_hw \<Rightarrow> nat \<Rightarrow> byte_ptr \<Rightarrow> u32 \<Rightarrow> int \<times> u32 \<times> mxc_hw"
  MXC_UART_Read :: "mxc_hw \<Rightarrow> nat \<Rightarrow> u32 \<Rightarrow> int \<times> u32 \<times> u8 list \<times> mxc_hw"

text \<open>
  The globals of the file (\<open>uart_irq_state\<close>, \<open>is_callback\<close>, the static byte \<open>c\<close>),
  the heap, the peripheral and the interrupt controller.
\<close>

record sys =
  live :: "addr set"
  mem_desc :: "addr \<Rightarrow> no_os_uart_desc"
  mem_max :: "addr \<Rightarrow> max_uart_desc"
  mem_fifo :: "addr \<Rightarrow> lf256fifo"
  uart_irq_state :: "nat \<Rightarrow> mxc_uart_req_t"
  is_callback :: bool
  static_c :: u8
  hw :: mxc_hw
  irq_callbacks :: "(IRQn_Type \<times> no_os_callback_desc) list"
  irq_enabled :: "IRQn_Type set"

text \<open>
  The SDK's macros that name the register block and the interrupt line of UART \<open>i\<close>;
  the model names both by \<open>i\<close>.
\<close>

definition MXC_UART_GET_UART :: "nat \<Rightarrow> nat" where
  "MXC_UART_GET_UART i = i"

definition MXC_UART_GET_IRQ :: "nat \<Rightarrow> IRQn_Type" where
  "MXC_UART_GET_IRQ i = UART_IRQn i"

definition sdk_called :: "sdk_call \<Rightarrow> sys \<Rightarrow> sys" where
  "sdk_called k s = s\<lparr>hw := (hw s)\<lparr>calls := calls (hw s) @ [k]\<rparr>\<rparr>"

text \<open>
  Modelled from the spec: \<open>MXC_UART_TransactionAsync\<close> is the begin\_transfer of the
  hardware layer. It is handed the address of a slot of \<open>uart_irq_state\<close>; it answers
  busy when the UART named in the request already holds a request in flight, and
  otherwise keeps the pointer as that UART's request in flight.
\<close>

definition MXC_UART_TransactionAsync :: "sys \<Rightarrow> nat \<Rightarrow> int \<times> sys" where
  "MXC_UART_TransactionAsync s slot =
     (let u = uart (uart_irq_state s slot);
          s1 = sdk_called (Call_UART_TransactionAsync slot) s
      in if async_req (hw s1) u \<noteq> None then (E_BUSY, s1)
         else (E_SUCCESS, s1\<lparr>hw := (hw s1)\<lparr>async_req := (async_req (hw s1))(u := Some slot)\<rparr>\<rparr>))"

text \<open>Modelled from the spec: shutdown of the peripheral; the trace records the call.\<close>

definition MXC_UART_Shutdown :: "nat \<Rightarrow> sys \<Rightarrow> sys" where
  "MXC_UART_Shutdown u s = sdk_called (Call_UART_Shutdown u) s"

subsection \<open>Blocking read\<close>

text \<open>
  The loop of \<open>max_uart_read\<close> over the queue: \<open>i\<close> is the loop counter and \<open>out\<close>
  the bytes stored so far into \<open>data[0]\<close>, ..., \<open>data[i - 1]\<close>.
\<close>

function max_uart_read_fifo ::
  "lf256fifo \<Rightarrow> u32 \<Rightarrow> nat \<Rightarrow> u8 list \<Rightarrow> int \<times> u8 list \<times> lf256fifo" where
  "max_uart_read_fifo f bytes_number i out =
     (if i < unat bytes_number then
        (case lf256fifo_read f of
           None \<Rightarrow> (if i \<noteq> 0 then i32_of_u32 i else - EAGAIN, out, f)
         | Some (b, f') \<Rightarrow> max_uart_read_fifo f' bytes_number (Suc i) (out @ [b]))
      else (i32_of_u32 i, out, f))"
  by pat_completeness auto
termination
  by (relation "measure (\<lambda>(f, bytes_number, i, out). unat bytes_number - i)") auto

declare max_uart_read_fifo.simps [simp del]

definition max_uart_read ::
  "mxc_sdk \<Rightarrow> sys \<Rightarrow> addr option \<Rightarrow> byte_ptr option \<Rightarrow> u32 \<Rightarrow> int \<times> u8 list \<times> sys" where
  "max_uart_read sdk s desc data bytes_number =
     (case desc of
        None \<Rightarrow> (- EINVAL, [], s)
      | Some a \<Rightarrow>
          if data = None \<or> bytes_number = 0 then (- EINVAL, [], s)
          else
            (case rx_fifo (mem_desc s a) of
               Some q \<Rightarrow>
                 (case max_uart_read_fifo (mem_fifo s q) bytes_number 0 [] of
                    (ret, out, f') \<Rightarrow> (ret, out, s\<lparr>mem_fifo := (mem_fifo s)(q := f')\<rparr>))
             | None \<Rightarrow>
                 (case MXC_UART_Read sdk (hw s) (MXC_UART_GET_UART (device_id (mem_desc s a)))
                         bytes_number of
                    (ret, len, out, h') \<Rightarrow>
                      if ret \<noteq> E_SUCCESS then (- EIO, out, s\<lparr>hw := h'\<rparr>)
                      else (sint len, out, s\<lparr>hw := h'\<rparr>))))"

subsection \<open>Blocking write\<close>

text \<open>
  The inner loop spins until the status word has the transmitter-empty flag; it returns
  only if the peripheral ever raises the flag, so it is a partial function and \<open>None\<close>
  stands for spinning forever.
\<close>

partial_function (option) wait_tx_empty :: "mxc_sdk \<Rightarrow> nat \<Rightarrow> mxc_hw \<Rightarrow> mxc_hw option" where
  "wait_tx_empty sdk u h =
     (case MXC_UART_GetStatus sdk h u of
        (st, h') \<Rightarrow>
          if st AND MXC_F_UART_STAT_TX_EMPTY sdk = 0 then wait_tx_empty sdk u h'
          else Some h')"

text \<open>
  The outer loop: \<open>block_size\<close> comes back from \<open>MXC_UART_Write\<close> as the number of bytes
  the peripheral took, and the arithmetic is that of 32-bit machine integers.
\<close>

partial_function (option) max_uart_write_loop ::
  "mxc_sdk \<Rightarrow> nat \<Rightarrow> byte_ptr \<Rightarrow> u32 \<Rightarrow> u32 \<Rightarrow> mxc_hw \<Rightarrow> (int \<times> mxc_hw) option" where
  "max_uart_write_loop sdk u data bytes_number transfered h =
     (if bytes_number \<noteq> 0 then
        Option.bind (wait_tx_empty sdk u h) (\<lambda>h1.
          case MXC_UART_Write sdk h1 u (ptr_add data transfered)
                 (min MXC_UART_FIFO_DEPTH bytes_number) of
            (ret, block_size, h2) \<Rightarrow>
              if ret \<noteq> E_SUCCESS then Some (- EIO, h2)
              else max_uart_write_loop sdk u data (bytes_number - block_size)
                     (transfered + block_size) h2)
      else Some (sint transfered, h))"

definition max_uart_write ::
  "mxc_sdk \<Rightarrow> sys \<Rightarrow> addr option \<Rightarrow> byte_ptr option \<Rightarrow> u32 \<Rightarrow> (int \<times> sys) option" where
  "max_uart_write sdk s desc data bytes_number =
     (case desc of
        None \<Rightarrow> Some (- EINVAL, s)
      | Some a \<Rightarrow>
          (case data of
             None \<Rightarrow> Some (- EINVAL, s)
           | Some p \<Rightarrow>
               if bytes_number = 0 then Some (- EINVAL, s)
               else map_option (\<lambda>(ret, h'). (ret, s\<lparr>hw := h'\<rparr>))
                      (max_uart_write_loop sdk (MXC_UART_GET_UART (device_id (mem_desc s a)))
                         p bytes_number 0 (hw s))))"

subsection \<open>Non-blocking read and write\<close>

definition max_uart_read_nonblocking ::
  "sys \<Rightarrow> addr option \<Rightarrow> byte_ptr option \<Rightarrow> u32 \<Rightarrow> int \<times> sys" where
  "max_uart_read_nonblocking s desc data bytes_number =
     (case desc of
        None \<Rightarrow> (- EINVAL, s)
      | Some a \<Rightarrow>
          if data = None \<or> bytes_number = 0 then (- EINVAL, s)
          else
            (let id = device_id (mem_desc s a);
                 s1 = s\<lparr>uart_irq_state := (uart_irq_state s)(id := (uart_irq_state s id)
                        \<lparr>uart := MXC_UART_GET_UART id, rxData := data, rxLen := bytes_number,
                         txData := None, txLen := 0, rxCnt := 0,
                         callback := Some max_uart_callback\<rparr>)\<rparr>
             in if \<not> is_callback s1 then
                  (case MXC_UART_TransactionAsync s1 id of
                     (ret, s2) \<Rightarrow> if ret = E_BUSY then (- EBUSY, s2) else (0, s2))
                else (0, s1)))"

definition max_uart_write_nonblocking ::
  "sys \<Rightarrow> addr option \<Rightarrow> byte_ptr option \<Rightarrow> u32 \<Rightarrow> int \<times> sys" where
  "max_uart_write_nonblocking s desc data bytes_number =
     (case desc of
        None \<Rightarrow> (- EINVAL, s)
      | Some a \<Rightarrow>
          if data = None \<or> bytes_number = 0 then (- EINVAL, s)
          else
            (let id = device_id (mem_desc s a);
                 s1 = s\<lparr>uart_irq_state := (uart_irq_state s)(id := (uart_irq_state s id)
                        \<lparr>uart := MXC_UART_GET_UART id, txData := data, txLen := bytes_number,
                         rxData := None, rxLen := 0, txCnt := 0,
                         callback := Some max_uart_callback\<rparr>)\<rparr>
             in if \<not> is_callback s1 then
                  (case MXC_UART_TransactionAsync s1 id of
                     (ret, s2) \<Rightarrow> if ret = E_BUSY then (- EBUSY, s2) else (0, s2))
                else (0, s1)))"

subsection \<open>The receive-completion handler\<close>

text \<open>
  \<open>uart_rx_callback\<close> ignores both results. Its context is the descriptor; a descriptor
  without a queue makes \<open>lf256fifo_write\<close> dereference a null pointer, which is \<open>None\<close>.
\<close>

definition uart_rx_callback :: "sys \<Rightarrow> addr \<Rightarrow> sys option" where
  "uart_rx_callback s d =
     (case rx_fifo (mem_desc s d) of
        None \<Rightarrow> None
      | Some q \<Rightarrow>
          (let s1 = (case lf256fifo_write (mem_fifo s q) (static_c s) of
                       None \<Rightarrow> s
                     | Some f' \<Rightarrow> s\<lparr>mem_fifo := (mem_fifo s)(q := f')\<rparr>)
           in Some (snd (max_uart_read_nonblocking s1 (Some d) (Some Addr_c) 1))))"

subsection \<open>Collaborators of init and remove\<close>

text \<open>
  What the allocator, the SDK's configuration calls and the interrupt layer answer is not
  decided by the driver: one \<open>env\<close> fixes the answer of each call \<open>max_uart_init\<close>
  makes. An allocation answers the address of the new block or the null pointer; a
  configuration call answers its result code.
\<close>

record env =
  calloc_descriptor :: "addr option"
  calloc_max_uart :: "addr option"
  ret_MXC_UART_Init :: int
  ret_MXC_UART_SetDataSize :: int
  ret_MXC_UART_SetParity :: int
  ret_MXC_UART_SetStopBits :: int
  ret_MXC_UART_SetFlowCtrl :: int
  calloc_lf256fifo :: "addr option"
  ret_no_os_irq_ctrl_init :: int
  calloc_nvic :: addr
  ret_no_os_irq_register_callback :: int
  ret_no_os_irq_enable :: int

text \<open>
  Modelled from the spec: memory allocation (no\_os\_alloc.c) is an external collaborator.
  \<open>no_os_calloc\<close> answers a zeroed block, which becomes live, or the null pointer;
  \<open>no_os_free\<close> ends the life of a block and ignores the null pointer.
\<close>

definition no_os_calloc_descriptor :: "env \<Rightarrow> sys \<Rightarrow> addr option \<times> sys" where
  "no_os_calloc_descriptor e s =
     (case calloc_descriptor e of
        None \<Rightarrow> (None, s)
      | Some a \<Rightarrow>
          (Some a, s\<lparr>live := insert a (live s),
                      mem_desc := (mem_desc s)(a :=
                        \<lparr>device_id = 0, baud_rate = 0, rx_fifo = None, extra = None\<rparr>)\<rparr>))"

definition no_os_calloc_max_uart :: "env \<Rightarrow> sys \<Rightarrow> addr option \<times> sys" where
  "no_os_calloc_max_uart e s =
     (case calloc_max_uart e of
        None \<Rightarrow> (None, s)
      | Some a \<Rightarrow>
          (Some a, s\<lparr>live := insert a (live s),
                      mem_max := (mem_max s)(a := \<lparr>nvic = None\<rparr>)\<rparr>))"

definition no_os_free :: "addr option \<Rightarrow> sys \<Rightarrow> sys" where
  "no_os_free p s = (case p of None \<Rightarrow> s | Some a \<Rightarrow> s\<lparr>live := live s - {a}\<rparr>)"

text \<open>
  Modelled from the spec: the ByteQueue is created on request; \<open>lf256fifo_init\<close> stores
  the new queue through the pointer it is given (here the descriptor's \<open>rx_fifo\<close>) and
  fails, changing nothing, when memory is exhausted.
\<close>

definition lf256fifo_init :: "env \<Rightarrow> addr \<Rightarrow> sys \<Rightarrow> int \<times> sys" where
  "lf256fifo_init e descriptor s =
     (case calloc_lf256fifo e of
        None \<Rightarrow> (- ENOMEM, s)
      | Some q \<Rightarrow>
          (0, s\<lparr>live := insert q (live s),
                 mem_fifo := (mem_fifo s)(q := lf256fifo_new),
                 mem_desc := (mem_desc s)(descriptor :=
                   (mem_desc s descriptor)\<lparr>rx_fifo := Some q\<rparr>)\<rparr>))"

text \<open>
  Modelled from the spec: the interrupt-controller layer (no\_os\_irq.c, maxim\_irq.c) is
  not among the sources. Creating the controller allocates its descriptor and stores it
  in \<open>max_uart->nvic\<close>; registering adds the handler to the line; enabling enables the
  line; removing the controller releases its descriptor. A call that fails changes
  nothing.
\<close>

definition no_os_irq_ctrl_init :: "env \<Rightarrow> addr \<Rightarrow> sys \<Rightarrow> int \<times> sys" where
  "no_os_irq_ctrl_init e max_uart s =
     (if ret_no_os_irq_ctrl_init e \<noteq> 0 then (ret_no_os_irq_ctrl_init e, s)
      else (0, s\<lparr>live := insert (calloc_nvic e) (live s),
                  mem_max := (mem_max s)(max_uart :=
                    (mem_max s max_uart)\<lparr>nvic := Some (calloc_nvic e)\<rparr>)\<rparr>))"

definition no_os_irq_register_callback ::
  "env \<Rightarrow> addr option \<Rightarrow> IRQn_Type \<Rightarrow> no_os_callback_desc \<Rightarrow> sys \<Rightarrow> int \<times> sys" where
  "no_os_irq_register_callback e ctrl irq_id cb s =
     (if ret_no_os_irq_register_callback e \<noteq> 0 then (ret_no_os_irq_register_callback e, s)
      else (0, s\<lparr>irq_callbacks := irq_callbacks s @ [(irq_id, cb)]\<rparr>))"

definition no_os_irq_enable :: "env \<Rightarrow> addr option \<Rightarrow> IRQn_Type \<Rightarrow> sys \<Rightarrow> int \<times> sys" where
  "no_os_irq_enable e ctrl irq_id s =
     (if ret_no_os_irq_enable e \<noteq> 0 then (ret_no_os_irq_enable e, s)
      else (0, s\<lparr>irq_enabled := insert irq_id (irq_enabled s)\<rparr>))"

definition no_os_irq_ctrl_remove :: "addr option \<Rightarrow> sys \<Rightarrow> sys" where
  "no_os_irq_ctrl_remove ctrl s = no_os_free ctrl s"

subsection \<open>Pin configuration\<close>

text \<open>
  \<open>_max_uart_pins_config\<close> of the source (an Isabelle name cannot start with an
  underscore): the three UARTs have pins, any other number is rejected before the GPIO
  layer is called.
\<close>

definition max_uart_pins_config :: "nat \<Rightarrow> mxc_gpio_vssel_t \<Rightarrow> sys \<Rightarrow> int \<times> sys" where
  "max_uart_pins_config dev vs s =
     (if dev = 0 \<or> dev = 1 \<or> dev = 2 then (0, sdk_called (Call_GPIO_Config dev vs) s)
      else (- EINVAL, s))"

subsection \<open>init\<close>

text \<open>The four \<open>switch\<close> statements; \<open>None\<close> is the \<open>default\<close> branch.\<close>

fun parity_switch :: "no_os_uart_parity \<Rightarrow> mxc_uart_parity_t option" where
  "parity_switch NO_OS_UART_PAR_NO = Some MXC_UART_PARITY_DISABLE"
| "parity_switch NO_OS_UART_PAR_MARK = Some MXC_UART_PARITY_MARK"
| "parity_switch NO_OS_UART_PAR_SPACE = Some MXC_UART_PARITY_SPACE"
| "parity_switch NO_OS_UART_PAR_ODD = Some MXC_UART_PARITY_ODD"
| "parity_switch NO_OS_UART_PAR_EVEN = Some MXC_UART_PARITY_EVEN"
| "parity_switch (NO_OS_UART_PAR_other v) = None"

fun size_switch :: "no_os_uart_size \<Rightarrow> int option" where
  "size_switch NO_OS_UART_CS_5 = Some 5"
| "size_switch NO_OS_UART_CS_6 = Some 6"
| "size_switch NO_OS_UART_CS_7 = Some 7"
| "size_switch NO_OS_UART_CS_8 = Some 8"
| "size_switch (NO_OS_UART_CS_other v) = None"

fun stop_switch :: "no_os_uart_stop \<Rightarrow> mxc_uart_stop_t option" where
  "stop_switch NO_OS_UART_STOP_1_BIT = Some MXC_UART_STOP_1"
| "stop_switch NO_OS_UART_STOP_2_BIT = Some MXC_UART_STOP_2"
| "stop_switch (NO_OS_UART_STOP_other v) = None"

fun flow_switch :: "max_uart_flow_ctrl \<Rightarrow> mxc_uart_flow_t option" where
  "flow_switch UART_FLOW_DIS = Some MXC_UART_FLOW_DIS"
| "flow_switch UART_FLOW_LOW = Some MXC_UART_FLOW_EN_LOW"
| "flow_switch UART_FLOW_HIGH = Some MXC_UART_FLOW_EN_HIGH"
| "flow_switch (UART_FLOW_other v) = None"

text \<open>The cleanup labels at the end of \<open>max_uart_init\<close>; each falls through to the next.\<close>

definition error_desc :: "int \<Rightarrow> addr \<Rightarrow> sys \<Rightarrow> int \<times> sys" where
  "error_desc ret descriptor s = (ret, no_os_free (Some descriptor) s)"

definition error_max :: "int \<Rightarrow> addr \<Rightarrow> addr \<Rightarrow> sys \<Rightarrow> int \<times> sys" where
  "error_max ret max_uart descriptor s =
     error_desc ret descriptor (no_os_free (Some max_uart) s)"

definition error_uart :: "int \<Rightarrow> nat \<Rightarrow> addr \<Rightarrow> addr \<Rightarrow> sys \<Rightarrow> int \<times> sys" where
  "error_uart ret uart_regs max_uart descriptor s =
     error_max ret max_uart descriptor (MXC_UART_Shutdown uart_regs s)"

definition error_nvic :: "int \<Rightarrow> nat \<Rightarrow> addr \<Rightarrow> addr \<Rightarrow> sys \<Rightarrow> int \<times> sys" where
  "error_nvic ret uart_regs max_uart descriptor s =
     error_uart ret uart_regs max_uart descriptor
       (no_os_irq_ctrl_remove (nvic (mem_max s max_uart)) s)"

text \<open>The body of \<open>if (param->asynchronous_rx)\<close>.\<close>

definition max_uart_init_async :: "env \<Rightarrow> nat \<Rightarrow> addr \<Rightarrow> addr \<Rightarrow> sys \<Rightarrow> int \<times> sys" where
  "max_uart_init_async e uart_regs max_uart descriptor s =
     (case lf256fifo_init e descriptor s of
        (ret1, s1) \<Rightarrow>
          if ret1 \<noteq> 0 then error_uart ret1 uart_regs max_uart descriptor s1
          else
            (case no_os_irq_ctrl_init e max_uart s1 of
               (ret2, s2) \<Rightarrow>
                 if ret2 \<noteq> 0 then error_uart ret2 uart_regs max_uart descriptor s2
                 else
                   (let uart_rx_cb =
                          \<lparr>cb_callback = Fn_uart_rx_callback, cb_ctx = descriptor,
                           cb_event = NO_OS_EVT_UART_RX_COMPLETE,
                           cb_peripheral = NO_OS_UART_IRQ,
                           cb_handle = MXC_UART_GET_UART (device_id (mem_desc s2 descriptor))\<rparr>
                    in case no_os_irq_register_callback e (nvic (mem_max s2 max_uart))
                              (MXC_UART_GET_IRQ (device_id (mem_desc s2 descriptor)))
                              uart_rx_cb s2 of
                         (ret3, s3) \<Rightarrow>
                           if ret3 \<noteq> 0 then error_nvic ret3 uart_regs max_uart descriptor s3
                           else
                             (case no_os_irq_enable e (nvic (mem_max s3 max_uart))
                                     (MXC_UART_GET_IRQ (device_id (mem_desc s3 descriptor)))
                                     s3 of
                                (ret4, s4) \<Rightarrow>
                                  if ret4 \<noteq> 0
                                  then error_nvic ret4 uart_regs max_uart descriptor s4
                                  else
                                    (case max_uart_read_nonblocking s4 (Some descriptor)
                                            (Some Addr_c) 1 of
                                       (ret5, s5) \<Rightarrow>
                                         if ret5 \<noteq> 0
                                         then error_nvic ret5 uart_regs max_uart descriptor s5
                                         else (0, s5))))))"

text \<open>
  From \<open>MXC_UART_Init\<close> to the end of the function. The third component of the result
  is the caller's variable \<open>*desc\<close>, which the function stores to once the flow control
  is set and never again.
\<close>

definition max_uart_init_hw ::
  "env \<Rightarrow> no_os_uart_init_param \<Rightarrow> max_uart_init_param \<Rightarrow> nat \<Rightarrow> addr \<Rightarrow> addr
     \<Rightarrow> int \<Rightarrow> mxc_uart_parity_t \<Rightarrow> mxc_uart_stop_t \<Rightarrow> mxc_uart_flow_t
     \<Rightarrow> addr option \<Rightarrow> sys \<Rightarrow> int \<times> addr option \<times> sys" where
  "max_uart_init_hw e param eparam uart_regs max_uart descriptor sz par stp flw out s =
     (let s1 = sdk_called (Call_UART_Init uart_regs (baud_rate (mem_desc s descriptor))) s in
      if ret_MXC_UART_Init e \<noteq> E_NO_ERROR
      then (case error_max (- EINVAL) max_uart descriptor s1 of (r, t) \<Rightarrow> (r, out, t))
      else
        (case max_uart_pins_config (device_id (mem_desc s1 descriptor)) (vssel eparam) s1 of
           (ret, s2) \<Rightarrow>
             if ret \<noteq> 0
             then (case error_uart ret uart_regs max_uart descriptor s2 of
                     (r, t) \<Rightarrow> (r, out, t))
             else
               (let s3 = sdk_called (Call_UART_SetDataSize uart_regs sz) s2 in
                if ret_MXC_UART_SetDataSize e \<noteq> E_NO_ERROR
                then (case error_uart (- EINVAL) uart_regs max_uart descriptor s3 of
                        (r, t) \<Rightarrow> (r, out, t))
                else
                  (let s4 = sdk_called (Call_UART_SetParity uart_regs par) s3 in
                   if ret_MXC_UART_SetParity e \<noteq> E_NO_ERROR
                   then (case error_uart (- EINVAL) uart_regs max_uart descriptor s4 of
                           (r, t) \<Rightarrow> (r, out, t))
                   else
                     (let s5 = sdk_called (Call_UART_SetStopBits uart_regs stp) s4 in
                      if ret_MXC_UART_SetStopBits e \<noteq> E_NO_ERROR
                      then (case error_uart (- EINVAL) uart_regs max_uart descriptor s5 of
                              (r, t) \<Rightarrow> (r, out, t))
                      else
                        (let s6 = sdk_called (Call_UART_SetFlowCtrl uart_regs flw 8) s5 in
                         if ret_MXC_UART_SetFlowCtrl e \<noteq> E_NO_ERROR
                         then (case error_uart (- EINVAL) uart_regs max_uart descriptor s6 of
                                 (r, t) \<Rightarrow> (r, out, t))
                         else if ip_asynchronous_rx param
                         then (case max_uart_init_async e uart_regs max_uart descriptor s6 of
                                 (r, t) \<Rightarrow> (r, Some descriptor, t))
                         else (0, Some descriptor, s6)))))))"

text \<open>
  \<open>max_uart_init e s out param\<close>: \<open>out\<close> is the value the caller's variable \<open>*desc\<close>
  holds before the call, \<open>param\<close> the (possibly null) parameter pointer.
\<close>

definition max_uart_init ::
  "env \<Rightarrow> sys \<Rightarrow> addr option \<Rightarrow> no_os_uart_init_param option \<Rightarrow> int \<times> addr option \<times> sys" where
  "max_uart_init e s out param =
     (case param of
        None \<Rightarrow> (- EINVAL, out, s)
      | Some p \<Rightarrow>
          (case ip_extra p of
             None \<Rightarrow> (- EINVAL, out, s)
           | Some eparam \<Rightarrow>
               (case no_os_calloc_descriptor e s of
                  (None, s1) \<Rightarrow> (- ENOMEM, out, s1)
                | (Some descriptor, s1) \<Rightarrow>
                    (case no_os_calloc_max_uart e s1 of
                       (None, s2) \<Rightarrow>
                         (case error_desc (- ENOMEM) descriptor s2 of (r, t) \<Rightarrow> (r, out, t))
                     | (Some max_uart, s2) \<Rightarrow>
                         (let s3 = s2\<lparr>mem_desc := (mem_desc s2)(descriptor :=
                                     (mem_desc s2 descriptor)\<lparr>extra := Some max_uart,
                                        device_id := ip_device_id p,
                                        baud_rate := ip_baud_rate p\<rparr>)\<rparr>;
                              uart_regs = MXC_UART_GET_UART (ip_device_id p);
                              bad = (case error_max (- EINVAL) max_uart descriptor s3 of
                                       (r, t) \<Rightarrow> (r, out, t))
                          in case parity_switch (ip_parity p) of
                               None \<Rightarrow> bad
                             | Some par \<Rightarrow>
                                 (case size_switch (ip_size p) of
                                    None \<Rightarrow> bad
                                  | Some sz \<Rightarrow>
                                      (case stop_switch (ip_stop p) of
                                         None \<Rightarrow> bad
                                       | Some stp \<Rightarrow>
                                           (case flow_switch (flow eparam) of
                                              None \<Rightarrow> bad
                                            | Some flw \<Rightarrow>
                                                max_uart_init_hw e p eparam uart_regs max_uart
                                                  descriptor sz par stp flw out s3))))))))"

subsection \<open>remove\<close>

definition max_uart_remove :: "sys \<Rightarrow> addr option \<Rightarrow> int \<times> sys" where
  "max_uart_remove s desc =
     (case desc of
        None \<Rightarrow> (- EINVAL, s)
      | Some a \<Rightarrow>
          (let s1 = MXC_UART_Shutdown (MXC_UART_GET_UART (device_id (mem_desc s a))) s;
               s2 = no_os_free (extra (mem_desc s1 a)) s1;
               s3 = no_os_free (Some a) s2
           in (0, s3)))"

subsection \<open>The operation table and the view of a queue as a list\<close>

text \<open>
  \<open>max_uart_ops\<close> exposes the two non-blocking operations side by side; \<open>submit\<close>
  selects one by the direction of the transfer.
\<close>

datatype direction = Receive | Transmit

definition submit ::
  "direction \<Rightarrow> sys \<Rightarrow> addr option \<Rightarrow> byte_ptr option \<Rightarrow> u32 \<Rightarrow> int \<times> sys" where
  "submit dir = (case dir of Receive \<Rightarrow> max_uart_read_nonblocking
                           | Transmit \<Rightarrow> max_uart_write_nonblocking)"

text \<open>
  The bytes a queue holds, oldest first: the slots from the read index up to the write
  index, around the ring.
\<close>

definition fifo_contents :: "lf256fifo \<Rightarrow> u8 list" where
  "fifo_contents f =
     map (\<lambda>k. slots f (read_index f + word_of_nat k)) [0..<unat (write_index f - read_index f)]"

subsection \<open>The blocks of a blocking write, after the spec\<close>

text \<open>
  The spec's words for the blocking write: the data is split into chunks no larger than
  the hardware transmit buffer depth, and for each chunk the driver waits until the
  transmit path is ready and then writes the chunk. \<open>spec_chunks\<close> lists the chunks
  (start and length) of a buffer of \<open>bytes_number\<close> bytes of which \<open>transfered\<close> are
  already sent; \<open>poll_and_write\<close> is what one status poll followed by one write of a
  chunk does to the peripheral. Both are compared with \<open>max_uart_write\<close> below.
\<close>

function spec_chunks :: "byte_ptr \<Rightarrow> u32 \<Rightarrow> u32 \<Rightarrow> (byte_ptr \<times> u32) list" where
  "spec_chunks data bytes_number transfered =
     (if bytes_number = 0 then []
      else (ptr_add data transfered, min MXC_UART_FIFO_DEPTH bytes_number) #
           spec_chunks data (bytes_number - min MXC_UART_FIFO_DEPTH bytes_number)
             (transfered + min MXC_UART_FIFO_DEPTH bytes_number))"
  by pat_completeness auto
termination
proof (relation "measure (\<lambda>(data, bytes_number, transfered). unat bytes_number)")
  show "wf (measure (\<lambda>(data :: byte_ptr, bytes_number :: u32, transfered :: u32).
      unat bytes_number))"
    by simp
next
  fix data :: byte_ptr and bytes_number transfered :: u32
  assume n: "bytes_number \<noteq> 0"
  let ?m = "min MXC_UART_FIFO_DEPTH bytes_number"
  have le: "?m \<le> bytes_number" by simp
  have "?m \<noteq> 0" using n by (simp add: min_def MXC_UART_FIFO_DEPTH_def)
  then have pos: "0 < unat ?m" by (simp add: unat_gt_0)
  have "unat (bytes_number - ?m) = unat bytes_number - unat ?m"
    using le by (rule unat_sub)
  moreover have "unat ?m \<le> unat bytes_number" using le by (simp add: word_le_nat_alt)
  ultimately have "unat (bytes_number - ?m) < unat bytes_number" using pos by linarith
  then show "((data, bytes_number - ?m, transfered + ?m), (data, bytes_number, transfered))
      \<in> measure (\<lambda>(data, bytes_number, transfered). unat bytes_number)"
    by simp
qed

declare spec_chunks.simps [simp del]

definition poll_and_write :: "mxc_sdk \<Rightarrow> nat \<Rightarrow> mxc_hw \<Rightarrow> byte_ptr \<times> u32 \<Rightarrow> mxc_hw" where
  "poll_and_write sdk u h c =
     (case c of
        (p, len) \<Rightarrow> snd (snd (MXC_UART_Write sdk (snd (MXC_UART_GetStatus sdk h u)) u p len)))"

subsection \<open>Concrete states and collaborators\<close>

text \<open>
  The state at program start (every global zero, nothing allocated, the peripheral idle),
  an instance with asynchronous receive (descriptor at 10, its extra state at 20, its
  queue at 30, the interrupt controller at 40) and one without (no queue), collaborators
  that all succeed, and an SDK whose transmitter is always ready.
\<close>

definition sys_reset :: sys where
  "sys_reset =
     \<lparr>live = {},
      mem_desc = (\<lambda>_. \<lparr>device_id = 0, baud_rate = 0, rx_fifo = None, extra = None\<rparr>),
      mem_max = (\<lambda>_. \<lparr>nvic = None\<rparr>),
      mem_fifo = (\<lambda>_. lf256fifo_new),
      uart_irq_state = (\<lambda>_. \<lparr>uart = 0, txData = None, rxData = None, txLen = 0, rxLen = 0,
                              txCnt = 0, rxCnt = 0, callback = None\<rparr>),
      is_callback = False,
      static_c = 0,
      hw = \<lparr>calls = [], async_req = (\<lambda>_. None)\<rparr>,
      irq_callbacks = [],
      irq_enabled = {}\<rparr>"

definition sys_async :: "lf256fifo \<Rightarrow> sys" where
  "sys_async f =
     sys_reset\<lparr>live := {10, 20, 30, 40},
               mem_desc := (mem_desc sys_reset)(10 :=
                 \<lparr>device_id = 0, baud_rate = 115200, rx_fifo = Some 30, extra = Some 20\<rparr>),
               mem_max := (mem_max sys_reset)(20 := \<lparr>nvic = Some 40\<rparr>),
               mem_fifo := (mem_fifo sys_reset)(30 := f),
               static_c := 7\<rparr>"

definition sys_sync :: sys where
  "sys_sync =
     sys_reset\<lparr>live := {10, 20},
               mem_desc := (mem_desc sys_reset)(10 :=
                 \<lparr>device_id = 0, baud_rate = 115200, rx_fifo = None, extra = Some 20\<rparr>)\<rparr>"

definition fifo_one :: lf256fifo where
  "fifo_one = \<lparr>slots = (\<lambda>_. 0)(0 := 65), write_index = 1, read_index = 0\<rparr>"

definition fifo_full :: lf256fifo where
  "fifo_full = \<lparr>slots = (\<lambda>k. k), write_index = 255, read_index = 0\<rparr>"

definition env_ok :: env where
  "env_ok =
     \<lparr>calloc_descriptor = Some 10, calloc_max_uart = Some 20, ret_MXC_UART_Init = 0,
      ret_MXC_UART_SetDataSize = 0, ret_MXC_UART_SetParity = 0,
      ret_MXC_UART_SetStopBits = 0, ret_MXC_UART_SetFlowCtrl = 0,
      calloc_lf256fifo = Some 30, ret_no_os_irq_ctrl_init = 0, calloc_nvic = 40,
      ret_no_os_irq_register_callback = 0, ret_no_os_irq_enable = 0\<rparr>"

definition param_115200_8N1 :: "nat \<Rightarrow> mxc_gpio_vssel_t \<Rightarrow> no_os_uart_init_param" where
  "param_115200_8N1 dev vs =
     \<lparr>ip_device_id = dev, ip_baud_rate = 115200, ip_size = NO_OS_UART_CS_8,
      ip_parity = NO_OS_UART_PAR_NO, ip_stop = NO_OS_UART_STOP_1_BIT,
      ip_asynchronous_rx = True,
      ip_extra = Some \<lparr>flow = UART_FLOW_DIS, vssel = vs\<rparr>\<rparr>"

definition sdk_ready :: mxc_sdk where
  "sdk_ready =
     \<lparr>MXC_UART_GetStatus = (\<lambda>h u. (64, h\<lparr>calls := calls h @ [Call_UART_GetStatus u]\<rparr>)),
      MXC_F_UART_STAT_TX_EMPTY = 64,
      MXC_UART_Write =
        (\<lambda>h u p len. (0, len, h\<lparr>calls := calls h @ [Call_UART_Write u p len]\<rparr>)),
      MXC_UART_Read =
        (\<lambda>h u len. (0, len, replicate (unat len) 0,
                     h\<lparr>calls := calls h @ [Call_UART_Read u len]\<rparr>))\<rparr>"

text \<open>The instance of \<open>sys_async\<close> with a four-byte write in flight.\<close>

definition sys_busy :: sys where
  "sys_busy =
     snd (max_uart_write_nonblocking (sys_async fifo_one) (Some 10) (Some (Addr_buf 100)) 4)"

section \<open>Properties of the byte queue\<close>

lemma i32_of_u32_small: "i < 2 ^ 31 \<Longrightarrow> i32_of_u32 i = int i"
  unfolding i32_of_u32_def
  by (simp add: signed_of_nat signed_take_bit_int_eq_self take_bit_nat_eq_self)

lemma fifo_contents_length: "length (fifo_contents f) < 256"
  using unsigned_less [of "write_index f - read_index f", where 'a = nat] by (simp add: fifo_contents_def)

lemma read_None_iff: "lf256fifo_read f = None \<longleftrightarrow> fifo_contents f = []"
  by (auto simp: lf256fifo_read_def lf256fifo_is_empty_def fifo_contents_def unat_eq_zero)

lemma read_Some_fifo:
  assumes "lf256fifo_read f = Some (b, f')"
  shows "f' = f\<lparr>read_index := read_index f + 1\<rparr>"
  using assms by (auto simp: lf256fifo_read_def split: if_splits)

lemma read_Some_contents:
  assumes "lf256fifo_read f = Some (b, f')"
  shows "fifo_contents f = b # fifo_contents f'"
proof -
  from assms have ne: "write_index f \<noteq> read_index f" and b: "b = slots f (read_index f)"
    and f': "f' = f\<lparr>read_index := read_index f + 1\<rparr>"
    by (auto simp: lf256fifo_read_def lf256fifo_is_empty_def split: if_splits)
  let ?d = "write_index f - read_index f"
  have "?d \<noteq> 0" using ne by simp
  then have m: "unat ?d = Suc (unat (?d - 1))"
    by (simp add: unat_minus_one unat_gt_0)
  have d': "write_index f' - read_index f' = ?d - 1" by (simp add: f')
  have "fifo_contents f = map (\<lambda>k. slots f (read_index f + word_of_nat k)) [0..<Suc (unat (?d - 1))]"
    using m by (simp add: fifo_contents_def)
  also have "\<dots> = slots f (read_index f) # map (\<lambda>k. slots f (read_index f + word_of_nat (Suc k))) [0..<unat (?d - 1)]"
    by (simp only: upt_conv_Cons zero_less_Suc list.map map_Suc_upt [symmetric] map_map o_def) simp
  also have "\<dots> = b # fifo_contents f'"
  proof -
    have "\<And>k. read_index f + word_of_nat (Suc k) = read_index f' + word_of_nat k"
      by (simp add: f')
    moreover have "slots f' = slots f" by (simp add: f')
    ultimately show ?thesis
      by (simp only: fifo_contents_def d' b)
  qed
  finally show ?thesis .
qed

lemma read_fifo_spec:
  "i \<noteq> 0 \<or> i < unat n \<Longrightarrow>
   max_uart_read_fifo f n i out =
     (let k = min (unat n - i) (length (fifo_contents f)) in
       ((if i + k = 0 then - EAGAIN else i32_of_u32 (i + k)),
        out @ take k (fifo_contents f), f\<lparr>read_index := read_index f + word_of_nat k\<rparr>))"
proof (induction f n i out rule: max_uart_read_fifo.induct)
  case (1 f n i out)
  show ?case
  proof (cases "i < unat n")
    case False
    with 1(2) show ?thesis by (subst max_uart_read_fifo.simps) simp
  next
    case True
    show ?thesis
    proof (cases "lf256fifo_read f")
      case None
      then have "fifo_contents f = []" by (simp add: read_None_iff)
      with None True show ?thesis by (subst max_uart_read_fifo.simps) simp
    next
      case (Some bf)
      obtain b f' where bf: "bf = (b, f')" by (cases bf)
      note c = read_Some_contents [OF Some [unfolded bf]] and e = read_Some_fifo [OF Some [unfolded bf]]
      have ih: "max_uart_read_fifo f' n (Suc i) (out @ [b]) =
          (let k = min (unat n - Suc i) (length (fifo_contents f')) in
            ((if Suc i + k = 0 then - EAGAIN else i32_of_u32 (Suc i + k)),
             (out @ [b]) @ take k (fifo_contents f'), f'\<lparr>read_index := read_index f' + word_of_nat k\<rparr>))"
        using 1(1) [OF True Some [unfolded bf] refl] by simp
      have k: "min (unat n - i) (length (fifo_contents f)) = Suc (min (unat n - Suc i) (length (fifo_contents f')))"
        using True unfolding c by (auto simp: min_def)
      show ?thesis
        apply (subst max_uart_read_fifo.simps)
        apply (simp only: True if_True Some bf option.case prod.case ih k Let_def)
        apply (simp add: c e add.assoc)
        done
    qed
  qed
qed

lemma read_full_length:
  "lf256fifo_is_full f \<Longrightarrow> length (fifo_contents f) = 255"
proof -
  assume "lf256fifo_is_full f"
  then have "write_index f - read_index f = - 1"
    by (simp add: lf256fifo_is_full_def algebra_simps)
  then show ?thesis by (simp add: fifo_contents_def unsigned_minus_1_eq_mask mask_eq_exp_minus_1)
qed

lemma fifo_contents_advance:
  "m \<le> length (fifo_contents f) \<Longrightarrow>
   fifo_contents (f\<lparr>read_index := read_index f + word_of_nat m\<rparr>) = drop m (fifo_contents f)"
proof (induction m arbitrary: f)
  case 0
  then show ?case by simp
next
  case (Suc m)
  then have "fifo_contents f \<noteq> []" by auto
  then obtain b f' where r: "lf256fifo_read f = Some (b, f')"
    using read_None_iff [of f] by (cases "lf256fifo_read f") auto
  note c = read_Some_contents [OF r] and e = read_Some_fifo [OF r]
  from Suc.prems c have "m \<le> length (fifo_contents f')" by simp
  from Suc.IH [OF this] have "fifo_contents (f'\<lparr>read_index := read_index f' + word_of_nat m\<rparr>) = drop m (fifo_contents f')" .
  moreover have "f'\<lparr>read_index := read_index f' + word_of_nat m\<rparr> = f\<lparr>read_index := read_index f + word_of_nat (Suc m)\<rparr>"
    by (simp add: e add.assoc)
  ultimately show ?case by (simp add: c)
qed

lemma write_contents:
  assumes "lf256fifo_write f b = Some f'"
  shows "fifo_contents f' = fifo_contents f @ [b]"
proof -
  from assms have nf: "write_index f + 1 \<noteq> read_index f"
    and f': "f' = f\<lparr>slots := (slots f)(write_index f := b), write_index := write_index f + 1\<rparr>"
    by (auto simp: lf256fifo_write_def lf256fifo_is_full_def split: if_splits)
  let ?d = "write_index f - read_index f"
  have "1 + ?d \<noteq> 0" using nf by (metis add.commute add_diff_eq eq_iff_diff_eq_0)
  then have m: "unat (1 + ?d) = Suc (unat ?d)" by (rule unatSuc)
  have d': "write_index f' - read_index f = 1 + ?d" by (simp add: f')
  have last: "read_index f + word_of_nat (unat ?d) = write_index f" by simp
  have other: "read_index f + word_of_nat k \<noteq> write_index f" if "k < unat ?d" for k
  proof
    assume "read_index f + word_of_nat k = write_index f"
    then have "word_of_nat k = ?d" by (simp add: algebra_simps)
    then have "unat (word_of_nat k :: u8) = unat ?d" by simp
    moreover have "k < 256" using that unsigned_less [of ?d, where 'a = nat] by simp
    ultimately show False using that by (simp add: unat_of_nat)
  qed
  have fe: "read_index f' = read_index f" by (simp add: f')
  have "fifo_contents f' =
      map (\<lambda>k. slots f' (read_index f + word_of_nat k)) [0..<unat ?d] @ [slots f' (read_index f + word_of_nat (unat ?d))]"
    by (simp only: fifo_contents_def d' m fe upt_Suc_append le0 map_append list.map)
  also have "map (\<lambda>k. slots f' (read_index f + word_of_nat k)) [0..<unat ?d] = fifo_contents f"
    unfolding fifo_contents_def by (rule map_cong) (auto simp: f' other)
  also have "slots f' (read_index f + word_of_nat (unat ?d)) = b"
    by (simp only: last) (simp add: f')
  finally show ?thesis .
qed

lemma max_uart_read_async:
  assumes "rx_fifo (mem_desc s a) = Some q" and "bytes_number \<noteq> 0"
  shows "max_uart_read sdk s (Some a) (Some p) bytes_number =
     (let f = mem_fifo s q; m = min (unat bytes_number) (length (fifo_contents f)) in
       ((if m = 0 then - EAGAIN else int m), take m (fifo_contents f),
        s\<lparr>mem_fifo := (mem_fifo s)(q := f\<lparr>read_index := read_index f + word_of_nat m\<rparr>)\<rparr>))"
proof -
  let ?f = "mem_fifo s q"
  let ?m = "min (unat bytes_number) (length (fifo_contents ?f))"
  have pos: "0 < unat bytes_number" using assms(2) by (simp add: unat_gt_0)
  have "?m < 256" using fifo_contents_length [of ?f] by simp
  then have i32: "i32_of_u32 ?m = int ?m" by (intro i32_of_u32_small) simp
  have "0 \<noteq> (0::nat) \<or> 0 < unat bytes_number" using pos by simp
  from read_fifo_spec [OF this, of ?f "[]"]
  have "max_uart_read_fifo ?f bytes_number 0 [] =
      ((if ?m = 0 then - EAGAIN else i32_of_u32 ?m), take ?m (fifo_contents ?f),
       ?f\<lparr>read_index := read_index ?f + word_of_nat ?m\<rparr>)"
    by (simp only: Let_def diff_zero add_0 append_Nil)
  then have "max_uart_read_fifo ?f bytes_number 0 [] =
      ((if ?m = 0 then - EAGAIN else int ?m), take ?m (fifo_contents ?f),
       ?f\<lparr>read_index := read_index ?f + word_of_nat ?m\<rparr>)"
    by (simp only: i32)
  then show ?thesis using assms by (simp add: max_uart_read_def Let_def)
qed

section \<open>Properties of the driver\<close>

lemma read_nonblocking_frame:
  "max_uart_read_nonblocking s desc data n = (r, s') \<Longrightarrow>
   mem_fifo s' = mem_fifo s \<and> mem_desc s' = mem_desc s \<and> mem_max s' = mem_max s \<and>
   live s' = live s \<and> static_c s' = static_c s \<and> is_callback s' = is_callback s \<and>
   irq_callbacks s' = irq_callbacks s \<and> irq_enabled s' = irq_enabled s"
  by (auto simp: max_uart_read_nonblocking_def MXC_UART_TransactionAsync_def sdk_called_def
      Let_def split: option.splits if_splits)

text \<open>
  Claim C4. On an instance with asynchronous receive (the descriptor has a queue) and a
  requested length above zero, the blocking read pops the queue byte by byte: it stores
  the oldest bytes, at most as many as were requested, in their order, stops when the
  queue is empty, leaves the rest in the queue, and returns the number of bytes it took,
  or \<open>-EAGAIN\<close> exactly when the queue held nothing.
\<close>

theorem C4_blocking_read_drains_queue:
  assumes "rx_fifo (mem_desc s a) = Some q" and "bytes_number \<noteq> 0"
  shows "\<exists>s'. max_uart_read sdk s (Some a) (Some p) bytes_number =
       ((if fifo_contents (mem_fifo s q) = [] then - EAGAIN
         else int (min (unat bytes_number) (length (fifo_contents (mem_fifo s q))))),
        take (unat bytes_number) (fifo_contents (mem_fifo s q)), s') \<and>
     fifo_contents (mem_fifo s' q) = drop (unat bytes_number) (fifo_contents (mem_fifo s q)) \<and>
     s' = s\<lparr>mem_fifo := (mem_fifo s)(q := (mem_fifo s q)\<lparr>read_index := read_index (mem_fifo s q) +
            word_of_nat (min (unat bytes_number) (length (fifo_contents (mem_fifo s q))))\<rparr>)\<rparr>"
proof -
  let ?f = "mem_fifo s q"
  let ?m = "min (unat bytes_number) (length (fifo_contents ?f))"
  have pos: "0 < unat bytes_number" using assms(2) by (simp add: unat_gt_0)
  have m0: "?m = 0 \<longleftrightarrow> fifo_contents ?f = []" using pos by (auto simp: min_def)
  have tk: "take ?m (fifo_contents ?f) = take (unat bytes_number) (fifo_contents ?f)"
    by (simp add: min_def)
  have "fifo_contents (?f\<lparr>read_index := read_index ?f + word_of_nat ?m\<rparr>) = drop ?m (fifo_contents ?f)"
    by (rule fifo_contents_advance) simp
  also have "\<dots> = drop (unat bytes_number) (fifo_contents ?f)"
    by (simp add: min_def)
  finally have dr: "fifo_contents (?f\<lparr>read_index := read_index ?f + word_of_nat ?m\<rparr>) =
      drop (unat bytes_number) (fifo_contents ?f)" .
  show ?thesis
    unfolding max_uart_read_async [OF assms] Let_def
    by (simp only: m0 tk) (simp add: dr)
qed

theorem C4_witness:
  "rx_fifo (mem_desc (sys_async fifo_one) 10) = Some 30 \<and> (4 :: u32) \<noteq> 0 \<and>
   fifo_contents fifo_one = [65] \<and>
   fst (max_uart_read sdk_ready (sys_async fifo_one) (Some 10) (Some (Addr_buf 0)) 4) = 1 \<and>
   fst (snd (max_uart_read sdk_ready (sys_async fifo_one) (Some 10) (Some (Addr_buf 0)) 4)) = [65] \<and>
   fst (max_uart_read sdk_ready (sys_async lf256fifo_new) (Some 10) (Some (Addr_buf 0)) 4) = - EAGAIN"
proof -
  have a: "rx_fifo (mem_desc (sys_async f) 10) = Some 30" for f
    by (simp add: sys_async_def sys_reset_def)
  have n: "(4 :: u32) \<noteq> 0" by simp
  have q: "mem_fifo (sys_async f) 30 = f" for f
    by (simp add: sys_async_def sys_reset_def)
  have c1: "fifo_contents fifo_one = [65]"
    by (simp add: fifo_contents_def fifo_one_def)
  have c0: "fifo_contents lf256fifo_new = []"
    by (simp add: fifo_contents_def lf256fifo_new_def)
  from C4_blocking_read_drains_queue [OF a [of fifo_one] n, where sdk = sdk_ready and p = "Addr_buf 0"]
    C4_blocking_read_drains_queue [OF a [of lf256fifo_new] n, where sdk = sdk_ready and p = "Addr_buf 0"]
  show ?thesis using a n by (auto simp: q c1 c0)
qed

lemma write_nonblocking_frame:
  "max_uart_write_nonblocking s desc data n = (r, s') \<Longrightarrow>
   mem_fifo s' = mem_fifo s \<and> mem_desc s' = mem_desc s \<and> mem_max s' = mem_max s \<and>
   live s' = live s \<and> static_c s' = static_c s \<and> is_callback s' = is_callback s \<and>
   irq_callbacks s' = irq_callbacks s \<and> irq_enabled s' = irq_enabled s"
  by (auto simp: max_uart_write_nonblocking_def MXC_UART_TransactionAsync_def sdk_called_def
      Let_def split: option.splits if_splits)

text \<open>
  Claim C8. Each of the four I/O operations, called with a null descriptor, a null data
  buffer or a zero length, returns \<open>-EINVAL\<close> and leaves the whole state, the
  peripheral included, as it was; the blocking read stores no byte.
\<close>

theorem C8_invalid_arguments:
  assumes "desc = None \<or> data = None \<or> bytes_number = 0"
  shows "max_uart_read sdk s desc data bytes_number = (- EINVAL, [], s) \<and>
         max_uart_write sdk s desc data bytes_number = Some (- EINVAL, s) \<and>
         max_uart_read_nonblocking s desc data bytes_number = (- EINVAL, s) \<and>
         max_uart_write_nonblocking s desc data bytes_number = (- EINVAL, s)"
  using assms
  by (auto simp: max_uart_read_def max_uart_write_def max_uart_read_nonblocking_def
      max_uart_write_nonblocking_def split: option.splits)

theorem C8_witness:
  "max_uart_read sdk_ready (sys_async fifo_one) (Some 10) (Some (Addr_buf 0)) 0
     = (- EINVAL, [], sys_async fifo_one) \<and>
   max_uart_write sdk_ready (sys_async fifo_one) (Some 10) None 4
     = Some (- EINVAL, sys_async fifo_one) \<and>
   max_uart_read_nonblocking (sys_async fifo_one) None (Some (Addr_buf 0)) 4
     = (- EINVAL, sys_async fifo_one) \<and>
   max_uart_write_nonblocking (sys_async fifo_one) (Some 10) (Some (Addr_buf 0)) 0
     = (- EINVAL, sys_async fifo_one)"
  using C8_invalid_arguments [of "Some 10" "Some (Addr_buf 0)" 0 sdk_ready "sys_async fifo_one"]
    C8_invalid_arguments [of "Some 10" None 4 sdk_ready "sys_async fifo_one"]
    C8_invalid_arguments [of None "Some (Addr_buf 0)" 4 sdk_ready "sys_async fifo_one"]
  by simp

text \<open>
  Claim C10. A non-blocking read or write with a descriptor, a buffer and a length above
  zero first overwrites the instance's slot of \<open>uart_irq_state\<close> with the new request
  (UART, buffer, length, cleared counterpart, progress counter, callback) and only then
  asks the peripheral. When the peripheral still holds a request in flight for that UART
  the call returns \<open>-EBUSY\<close>, the peripheral keeps its pointer to the slot, and the slot
  holds the rejected request's values.
\<close>

theorem C10_slot_overwritten_before_busy_check:
  assumes "bytes_number \<noteq> 0" and "device_id (mem_desc s a) < MXC_UART_INSTANCES"
  shows
    "(case max_uart_read_nonblocking s (Some a) (Some p) bytes_number of
        (ret, s') \<Rightarrow>
          uart_irq_state s' (device_id (mem_desc s a)) =
            (uart_irq_state s (device_id (mem_desc s a)))
              \<lparr>uart := MXC_UART_GET_UART (device_id (mem_desc s a)), rxData := Some p,
               rxLen := bytes_number, txData := None, txLen := 0, rxCnt := 0,
               callback := Some max_uart_callback\<rparr> \<and>
          (\<not> is_callback s \<and> async_req (hw s) (device_id (mem_desc s a)) \<noteq> None \<longrightarrow>
             ret = - EBUSY \<and> async_req (hw s') = async_req (hw s))) \<and>
     (case max_uart_write_nonblocking s (Some a) (Some p) bytes_number of
        (ret, s') \<Rightarrow>
          uart_irq_state s' (device_id (mem_desc s a)) =
            (uart_irq_state s (device_id (mem_desc s a)))
              \<lparr>uart := MXC_UART_GET_UART (device_id (mem_desc s a)), txData := Some p,
               txLen := bytes_number, rxData := None, rxLen := 0, txCnt := 0,
               callback := Some max_uart_callback\<rparr> \<and>
          (\<not> is_callback s \<and> async_req (hw s) (device_id (mem_desc s a)) \<noteq> None \<longrightarrow>
             ret = - EBUSY \<and> async_req (hw s') = async_req (hw s)))"
  using assms
  by (simp add: max_uart_read_nonblocking_def max_uart_write_nonblocking_def
      MXC_UART_TransactionAsync_def sdk_called_def MXC_UART_GET_UART_def Let_def)


lemma sys_async_simps:
  "mem_desc (sys_async f) 10 = \<lparr>device_id = 0, baud_rate = 115200, rx_fifo = Some 30, extra = Some 20\<rparr>"
  "mem_fifo (sys_async f) 30 = f"
  "is_callback (sys_async f) = False"
  "hw (sys_async f) = \<lparr>calls = [], async_req = (\<lambda>_. None)\<rparr>"
  "static_c (sys_async f) = 7"
  by (simp_all add: sys_async_def sys_reset_def)

lemma sys_busy_simps:
  "mem_desc sys_busy 10 = \<lparr>device_id = 0, baud_rate = 115200, rx_fifo = Some 30, extra = Some 20\<rparr>"
  "is_callback sys_busy = False"
  "async_req (hw sys_busy) 0 = Some 0"
  "txLen (uart_irq_state sys_busy 0) = 4"
  "txData (uart_irq_state sys_busy 0) = Some (Addr_buf 100)"
  by (simp_all add: sys_busy_def max_uart_write_nonblocking_def sys_async_simps Let_def
      MXC_UART_TransactionAsync_def sdk_called_def MXC_UART_GET_UART_def E_BUSY_def E_SUCCESS_def)

theorem C10_witness:
  "(4 :: u32) \<noteq> 0 \<and> device_id (mem_desc sys_busy 10) < MXC_UART_INSTANCES \<and>
   \<not> is_callback sys_busy \<and> async_req (hw sys_busy) 0 = Some 0 \<and>
   txData (uart_irq_state sys_busy 0) = Some (Addr_buf 100) \<and>
   fst (max_uart_read_nonblocking sys_busy (Some 10) (Some (Addr_buf 8)) 4) = - EBUSY \<and>
   async_req (hw (snd (max_uart_read_nonblocking sys_busy (Some 10) (Some (Addr_buf 8)) 4))) 0
     = Some 0 \<and>
   rxData (uart_irq_state
     (snd (max_uart_read_nonblocking sys_busy (Some 10) (Some (Addr_buf 8)) 4)) 0)
     = Some (Addr_buf 8) \<and>
   txData (uart_irq_state
     (snd (max_uart_read_nonblocking sys_busy (Some 10) (Some (Addr_buf 8)) 4)) 0) = None \<and>
   fst (max_uart_write_nonblocking sys_busy (Some 10) (Some (Addr_buf 8)) 4) = - EBUSY \<and>
   txData (uart_irq_state
     (snd (max_uart_write_nonblocking sys_busy (Some 10) (Some (Addr_buf 8)) 4)) 0)
     = Some (Addr_buf 8)"
proof -
  have n: "(4 :: u32) \<noteq> 0" by simp
  have v: "device_id (mem_desc sys_busy 10) < MXC_UART_INSTANCES"
    by (simp add: sys_busy_simps MXC_UART_INSTANCES_def)
  from C10_slot_overwritten_before_busy_check [OF n v, where p = "Addr_buf 8"] n v
  show ?thesis
    by (auto simp: sys_busy_simps split: prod.splits)
qed

text \<open>
  Claim C2, as amended. On an instance whose UART holds no request in flight, a
  non-blocking read or write with a buffer and a length above zero is accepted. While
  \<open>is_callback\<close> is clear, the peripheral then holds the request, and a second
  submission before completion returns \<open>-EBUSY\<close>. While \<open>is_callback\<close> is set (the
  call comes from inside the dispatch of a completion callback) a submission only records
  the request and does not reach the peripheral, so the second one is accepted as well.
\<close>

theorem C2_second_submission:
  assumes "async_req (hw s) (device_id (mem_desc s a)) = None"
    and "n1 \<noteq> 0" and "n2 \<noteq> 0"
    and "device_id (mem_desc s a) < MXC_UART_INSTANCES"
  shows
    "(case submit d1 s (Some a) (Some p1) n1 of
        (r1, s1) \<Rightarrow>
          r1 = 0 \<and>
          (case submit d2 s1 (Some a) (Some p2) n2 of
             (r2, s2) \<Rightarrow>
               if is_callback s then r2 = 0 \<and> hw s1 = hw s \<and> hw s2 = hw s
               else async_req (hw s1) (device_id (mem_desc s a))
                      = Some (device_id (mem_desc s a)) \<and>
                    r2 = - EBUSY \<and> async_req (hw s2) = async_req (hw s1)))"
  using assms
  by (cases d1; cases d2)
    (simp_all add: submit_def max_uart_read_nonblocking_def max_uart_write_nonblocking_def
      MXC_UART_TransactionAsync_def sdk_called_def MXC_UART_GET_UART_def Let_def
      E_BUSY_def E_SUCCESS_def)

theorem C2_witness:
  "async_req (hw (sys_async fifo_one)) (device_id (mem_desc (sys_async fifo_one) 10)) = None \<and>
   (4 :: u32) \<noteq> 0 \<and> device_id (mem_desc (sys_async fifo_one) 10) < MXC_UART_INSTANCES \<and>
   \<not> is_callback (sys_async fifo_one) \<and>
   fst (max_uart_write_nonblocking (sys_async fifo_one) (Some 10) (Some (Addr_buf 100)) 4) = 0 \<and>
   fst (max_uart_write_nonblocking
     (snd (max_uart_write_nonblocking (sys_async fifo_one) (Some 10) (Some (Addr_buf 100)) 4))
     (Some 10) (Some (Addr_buf 200)) 4) = - EBUSY"
proof -
  have i: "async_req (hw (sys_async fifo_one)) (device_id (mem_desc (sys_async fifo_one) 10)) = None"
    by (simp add: sys_async_simps)
  have n: "(4 :: u32) \<noteq> 0" by simp
  have v: "device_id (mem_desc (sys_async fifo_one) 10) < MXC_UART_INSTANCES"
    by (simp add: sys_async_simps MXC_UART_INSTANCES_def)
  from C2_second_submission [OF i n n v, where ?d1.0 = Transmit and ?p1.0 = "Addr_buf 100"
      and ?d2.0 = Transmit and ?p2.0 = "Addr_buf 200"] i n v
  show ?thesis
    by (auto simp: submit_def sys_async_simps split: prod.splits)
qed

theorem C2_counterexample:
  "async_req (hw ((sys_async fifo_one)\<lparr>is_callback := True\<rparr>))
     (device_id (mem_desc ((sys_async fifo_one)\<lparr>is_callback := True\<rparr>) 10)) = None \<and>
   fst (max_uart_write_nonblocking ((sys_async fifo_one)\<lparr>is_callback := True\<rparr>)
     (Some 10) (Some (Addr_buf 100)) 4) = 0 \<and>
   fst (max_uart_write_nonblocking
     (snd (max_uart_write_nonblocking ((sys_async fifo_one)\<lparr>is_callback := True\<rparr>)
       (Some 10) (Some (Addr_buf 100)) 4))
     (Some 10) (Some (Addr_buf 200)) 4) \<noteq> - EBUSY"
  by (simp add: sys_async_def sys_reset_def max_uart_write_nonblocking_def Let_def EBUSY_def)

text \<open>
  Claim C3, as amended. On an instance with asynchronous receive, the receive-completion
  handler pushes the received byte (the static byte \<open>c\<close>) into the instance's queue,
  where it becomes the newest entry (a full queue rejects it), and then calls the
  non-blocking read for one byte into \<open>c\<close>, which overwrites the instance's slot of
  \<open>uart_irq_state\<close> with that request. While \<open>is_callback\<close> is set, the handler goes
  no further: the peripheral is not contacted. While it is clear, the request is handed to
  the peripheral, which holds it in flight if the UART was idle and answers busy, a result
  the handler ignores, if it was not. Nothing else in the state changes.
\<close>

theorem C3_rx_callback_effect:
  assumes "rx_fifo (mem_desc s d) = Some q"
  shows
    "uart_rx_callback s d = Some
       (let dev = device_id (mem_desc s d);
            pushed = (case lf256fifo_write (mem_fifo s q) (static_c s) of
                        None \<Rightarrow> mem_fifo s q | Some f' \<Rightarrow> f');
            s1 = s\<lparr>mem_fifo := (mem_fifo s)(q := pushed),
                   uart_irq_state := (uart_irq_state s)(dev := (uart_irq_state s dev)
                     \<lparr>uart := MXC_UART_GET_UART dev, rxData := Some Addr_c, rxLen := 1,
                      txData := None, txLen := 0, rxCnt := 0,
                      callback := Some max_uart_callback\<rparr>)\<rparr>
        in if is_callback s then s1
           else if async_req (hw s) (MXC_UART_GET_UART dev) \<noteq> None
           then s1\<lparr>hw := (hw s)\<lparr>calls := calls (hw s) @ [Call_UART_TransactionAsync dev]\<rparr>\<rparr>
           else s1\<lparr>hw := (hw s)\<lparr>calls := calls (hw s) @ [Call_UART_TransactionAsync dev],
                              async_req := (async_req (hw s))
                                (MXC_UART_GET_UART dev := Some dev)\<rparr>\<rparr>) \<and>
     (if lf256fifo_is_full (mem_fifo s q)
      then lf256fifo_write (mem_fifo s q) (static_c s) = None
      else \<exists>f'. lf256fifo_write (mem_fifo s q) (static_c s) = Some f' \<and>
             fifo_contents f' = fifo_contents (mem_fifo s q) @ [static_c s]) \<and>
     fst (max_uart_read_nonblocking
            (s\<lparr>mem_fifo := (mem_fifo s)(q :=
                (case lf256fifo_write (mem_fifo s q) (static_c s) of
                   None \<Rightarrow> mem_fifo s q | Some f' \<Rightarrow> f'))\<rparr>)
            (Some d) (Some Addr_c) 1) =
       (if \<not> is_callback s \<and>
           async_req (hw s) (MXC_UART_GET_UART (device_id (mem_desc s d))) \<noteq> None
        then - EBUSY else 0)"
proof (cases "lf256fifo_write (mem_fifo s q) (static_c s)")
  case None
  then have full: "lf256fifo_is_full (mem_fifo s q)"
    by (simp add: lf256fifo_write_def split: if_splits)
  show ?thesis
    using assms None full
    by (simp add: uart_rx_callback_def max_uart_read_nonblocking_def
        MXC_UART_TransactionAsync_def sdk_called_def MXC_UART_GET_UART_def Let_def
        E_BUSY_def E_SUCCESS_def)
next
  case (Some f')
  then have nf: "\<not> lf256fifo_is_full (mem_fifo s q)"
    by (simp add: lf256fifo_write_def split: if_splits)
  note c = write_contents [OF Some]
  show ?thesis
    using assms Some nf c
    by (simp add: uart_rx_callback_def max_uart_read_nonblocking_def
        MXC_UART_TransactionAsync_def sdk_called_def MXC_UART_GET_UART_def Let_def
        E_BUSY_def E_SUCCESS_def)
qed

theorem C3_witness:
  "rx_fifo (mem_desc (sys_async fifo_one) 10) = Some 30 \<and>
   fifo_contents fifo_one = [65] \<and> static_c (sys_async fifo_one) = 7 \<and>
   \<not> is_callback (sys_async fifo_one) \<and> async_req (hw (sys_async fifo_one)) 0 = None \<and>
   (\<exists>s'. uart_rx_callback (sys_async fifo_one) 10 = Some s' \<and>
      fifo_contents (mem_fifo s' 30) = [65, 7] \<and>
      rxLen (uart_irq_state s' 0) = 1 \<and> rxData (uart_irq_state s' 0) = Some Addr_c \<and>
      calls (hw s') = [Call_UART_TransactionAsync 0] \<and> async_req (hw s') 0 = Some 0)"
proof -
  have a: "rx_fifo (mem_desc (sys_async fifo_one) 10) = Some 30"
    by (simp add: sys_async_simps)
  have c1: "fifo_contents fifo_one = [65]"
    by (simp add: fifo_contents_def fifo_one_def)
  have nf: "\<not> lf256fifo_is_full (mem_fifo (sys_async fifo_one) 30)"
    by (simp add: sys_async_simps lf256fifo_is_full_def fifo_one_def)
  note t = C3_rx_callback_effect [OF a]
  from t [THEN conjunct2, THEN conjunct1] nf
  obtain f' where w: "lf256fifo_write (mem_fifo (sys_async fifo_one) 30)
        (static_c (sys_async fifo_one)) = Some f'"
    and c: "fifo_contents f' = fifo_contents (mem_fifo (sys_async fifo_one) 30) @
        [static_c (sys_async fifo_one)]"
    by auto
  from t [THEN conjunct1] w c show ?thesis
    using a c1 by (simp add: sys_async_simps Let_def MXC_UART_GET_UART_def)
qed

theorem C3_counterexample:
  "rx_fifo (mem_desc ((sys_async fifo_one)\<lparr>is_callback := True\<rparr>) 10) = Some 30 \<and>
   is_callback ((sys_async fifo_one)\<lparr>is_callback := True\<rparr>) \<and>
   calls (hw ((sys_async fifo_one)\<lparr>is_callback := True\<rparr>)) = [] \<and>
   async_req (hw ((sys_async fifo_one)\<lparr>is_callback := True\<rparr>)) 0 = None \<and>
   map_option hw (uart_rx_callback ((sys_async fifo_one)\<lparr>is_callback := True\<rparr>) 10) =
     Some (hw ((sys_async fifo_one)\<lparr>is_callback := True\<rparr>))"
  by (simp add: sys_async_def sys_reset_def uart_rx_callback_def max_uart_read_nonblocking_def
      Let_def split: option.splits)

text \<open>
  Claim C7. When the handler runs on an instance whose queue is full, the arriving byte
  is dropped without a trace: the handler leaves exactly the state that its re-submission
  alone would leave, so no component of the state counts or reports the loss, and every
  queue is unchanged. The 255 bytes the full queue held stay retrievable in their order:
  a blocking read of any length above zero returns the oldest of them, as many as asked
  for, in that order.
\<close>

theorem C7_full_queue_drops_byte:
  assumes "rx_fifo (mem_desc s d) = Some q" and "lf256fifo_is_full (mem_fifo s q)"
  shows "\<exists>s'. uart_rx_callback s d = Some s' \<and>
     s' = snd (max_uart_read_nonblocking s (Some d) (Some Addr_c) 1) \<and>
     mem_fifo s' = mem_fifo s \<and>
     length (fifo_contents (mem_fifo s' q)) = 255 \<and>
     (\<forall>sdk p n. n \<noteq> 0 \<longrightarrow>
        fst (max_uart_read sdk s' (Some d) (Some p) n) = int (min (unat n) 255) \<and>
        fst (snd (max_uart_read sdk s' (Some d) (Some p) n))
          = take (unat n) (fifo_contents (mem_fifo s q)))"
proof -
  let ?s' = "snd (max_uart_read_nonblocking s (Some d) (Some Addr_c) 1)"
  have cb: "uart_rx_callback s d = Some ?s'"
    using assms by (simp add: uart_rx_callback_def lf256fifo_write_def)
  obtain r where rs: "max_uart_read_nonblocking s (Some d) (Some Addr_c) 1 = (r, ?s')"
    by (cases "max_uart_read_nonblocking s (Some d) (Some Addr_c) 1") simp
  note fr = read_nonblocking_frame [OF rs]
  from fr have mf: "mem_fifo ?s' = mem_fifo s" and md: "mem_desc ?s' = mem_desc s" by simp_all
  have len: "length (fifo_contents (mem_fifo s q)) = 255"
    using assms(2) by (rule read_full_length)
  have rd: "fst (max_uart_read sdk ?s' (Some d) (Some p) n) = int (min (unat n) 255) \<and>
        fst (snd (max_uart_read sdk ?s' (Some d) (Some p) n))
          = take (unat n) (fifo_contents (mem_fifo s q))" if n: "n \<noteq> 0" for sdk p n
  proof -
    have a': "rx_fifo (mem_desc ?s' d) = Some q" using assms(1) md by simp
    have pos: "0 < unat n" using n by (simp add: unat_gt_0)
    show ?thesis
      unfolding max_uart_read_async [OF a' n] Let_def mf
      using pos by (simp add: len min_def)
  qed
  show ?thesis
    using cb mf len rd by (intro exI [of _ ?s']) (simp add: mf)
qed

theorem C7_witness:
  "rx_fifo (mem_desc (sys_async fifo_full) 10) = Some 30 \<and>
   lf256fifo_is_full (mem_fifo (sys_async fifo_full) 30) \<and>
   (\<exists>s'. uart_rx_callback (sys_async fifo_full) 10 = Some s' \<and>
      mem_fifo s' 30 = fifo_full \<and>
      fst (max_uart_read sdk_ready s' (Some 10) (Some (Addr_buf 0)) 300) = 255)"
proof -
  have a: "rx_fifo (mem_desc (sys_async fifo_full) 10) = Some 30"
    by (simp add: sys_async_simps)
  have f: "lf256fifo_is_full (mem_fifo (sys_async fifo_full) 30)"
    by (simp add: sys_async_simps lf256fifo_is_full_def fifo_full_def)
  from C7_full_queue_drops_byte [OF a f]
  obtain s' where "uart_rx_callback (sys_async fifo_full) 10 = Some s'"
    and "mem_fifo s' = mem_fifo (sys_async fifo_full)"
    and "\<forall>sdk p n. n \<noteq> 0 \<longrightarrow>
        fst (max_uart_read sdk s' (Some 10) (Some p) n) = int (min (unat n) 255)"
    by blast
  then show ?thesis
    using a f by (auto simp: sys_async_simps)
qed

lemma spec_chunks_bounds:
  "(\<forall>c \<in> set (spec_chunks data bytes_number transfered).
      snd c \<noteq> 0 \<and> snd c \<le> MXC_UART_FIFO_DEPTH) \<and>
   sum_list (map (\<lambda>c. unat (snd c)) (spec_chunks data bytes_number transfered))
     = unat bytes_number"
proof (induction data bytes_number transfered rule: spec_chunks.induct)
  case (1 data bytes_number transfered)
  show ?case
  proof (cases "bytes_number = 0")
    case True
    then show ?thesis by (subst (1 2) spec_chunks.simps) simp
  next
    case False
    let ?m = "min MXC_UART_FIFO_DEPTH bytes_number"
    have le: "?m \<le> bytes_number" by simp
    have ne: "?m \<noteq> 0" using False by (simp add: min_def MXC_UART_FIFO_DEPTH_def)
    have "unat (bytes_number - ?m) = unat bytes_number - unat ?m"
      using le by (rule unat_sub)
    moreover have "unat ?m \<le> unat bytes_number" using le by (simp add: word_le_nat_alt)
    ultimately have s: "unat ?m + unat (bytes_number - ?m) = unat bytes_number" by linarith
    from 1 [OF False] s ne show ?thesis
      by (subst (1 2) spec_chunks.simps) (simp add: False)
  qed
qed

lemma wait_tx_empty_one:
  "fst (MXC_UART_GetStatus sdk h u) AND MXC_F_UART_STAT_TX_EMPTY sdk \<noteq> 0 \<Longrightarrow>
   wait_tx_empty sdk u h = Some (snd (MXC_UART_GetStatus sdk h u))"
  by (subst wait_tx_empty.simps) (auto split: prod.splits)

lemma write_loop_ready:
  assumes ready: "\<forall>h v. fst (MXC_UART_GetStatus sdk h v) AND MXC_F_UART_STAT_TX_EMPTY sdk \<noteq> 0"
    and takes: "\<forall>h v q l. fst (MXC_UART_Write sdk h v q l) = E_SUCCESS \<and>
                  fst (snd (MXC_UART_Write sdk h v q l)) = l"
  shows "max_uart_write_loop sdk u data bytes_number transfered h =
     Some (sint (transfered + bytes_number),
           foldl (poll_and_write sdk u) h (spec_chunks data bytes_number transfered))"
proof (induction data bytes_number transfered arbitrary: h rule: spec_chunks.induct)
  case (1 data bytes_number transfered)
  show ?case
  proof (cases "bytes_number = 0")
    case True
    then show ?thesis
      by (subst max_uart_write_loop.simps, subst spec_chunks.simps) simp
  next
    case False
    let ?m = "min MXC_UART_FIFO_DEPTH bytes_number"
    let ?h1 = "snd (MXC_UART_GetStatus sdk h u)"
    let ?w = "MXC_UART_Write sdk ?h1 u (ptr_add data transfered) ?m"
    have w: "?w = (E_SUCCESS, ?m, snd (snd ?w))"
      using takes by (metis prod.collapse)
    have wt: "wait_tx_empty sdk u h = Some ?h1"
      using ready by (simp add: wait_tx_empty_one)
    have pw: "poll_and_write sdk u h (ptr_add data transfered, ?m) = snd (snd ?w)"
      by (simp add: poll_and_write_def)
    have eq: "transfered + ?m + (bytes_number - ?m) = transfered + bytes_number" by simp
    note ih = 1 [OF False, of "snd (snd ?w)"]
    show ?thesis
      apply (subst max_uart_write_loop.simps)
      apply (subst spec_chunks.simps)
      apply (simp only: False if_False wt Option.bind.simps)
      apply (subst w)
      apply (simp only: prod.case if_False if_True simp_thms ih eq foldl.simps pw)
      done
  qed
qed

text \<open>
  Claim C6, as amended. A blocking write talks to the peripheral directly: with valid
  arguments it polls the status until the transmitter is empty and hands
  \<open>MXC_UART_Write\<close> the first block of at most \<open>MXC_UART_FIFO_DEPTH\<close> bytes, returns
  \<open>-EIO\<close> when the SDK reports a fault and otherwise goes on with the rest; with an SDK
  that is always ready and takes every block, it returns the length after one poll and one
  write per block, the blocks being those of the spec (none empty, none above the depth,
  together the whole length). It changes nothing but the peripheral, so it leaves every
  queue untouched. So does a blocking read on an instance without asynchronous receive,
  whose result, bytes and effect are those of \<open>MXC_UART_Read\<close>. A blocking read on an
  instance with asynchronous receive does not reach the peripheral: it pops the oldest
  bytes of the instance's queue, advancing the queue's read index by their number, and
  changes nothing else.
\<close>

theorem C6_blocking_io_and_queues:
  "(\<forall>r s'. max_uart_write sdk s desc data n = Some (r, s') \<longrightarrow>
      s' = s\<lparr>hw := hw s'\<rparr> \<and> mem_fifo s' = mem_fifo s) \<and>
   (\<forall>a p. desc = Some a \<and> data = Some p \<and> n \<noteq> 0 \<longrightarrow>
      max_uart_write sdk s desc data n =
        Option.bind (wait_tx_empty sdk (MXC_UART_GET_UART (device_id (mem_desc s a))) (hw s))
          (\<lambda>h1. case MXC_UART_Write sdk h1 (MXC_UART_GET_UART (device_id (mem_desc s a)))
                       (ptr_add p 0) (min MXC_UART_FIFO_DEPTH n) of
                  (ret, block_size, h2) \<Rightarrow>
                    if ret \<noteq> E_SUCCESS then Some (- EIO, s\<lparr>hw := h2\<rparr>)
                    else map_option (\<lambda>(r, h'). (r, s\<lparr>hw := h'\<rparr>))
                           (max_uart_write_loop sdk
                              (MXC_UART_GET_UART (device_id (mem_desc s a))) p
                              (n - block_size) (0 + block_size) h2))) \<and>
   (\<forall>a p. desc = Some a \<and> data = Some p \<and> n \<noteq> 0 \<and>
      (\<forall>h v. fst (MXC_UART_GetStatus sdk h v) AND MXC_F_UART_STAT_TX_EMPTY sdk \<noteq> 0) \<and>
      (\<forall>h v q l. fst (MXC_UART_Write sdk h v q l) = E_SUCCESS \<and>
                  fst (snd (MXC_UART_Write sdk h v q l)) = l) \<longrightarrow>
      max_uart_write sdk s desc data n =
        Some (sint n,
              s\<lparr>hw := foldl (poll_and_write sdk (MXC_UART_GET_UART (device_id (mem_desc s a))))
                         (hw s) (spec_chunks p n 0)\<rparr>) \<and>
      (\<forall>c \<in> set (spec_chunks p n 0). snd c \<noteq> 0 \<and> snd c \<le> MXC_UART_FIFO_DEPTH) \<and>
      sum_list (map (\<lambda>c. unat (snd c)) (spec_chunks p n 0)) = unat n) \<and>
   ((\<forall>a. desc = Some a \<longrightarrow> rx_fifo (mem_desc s a) = None) \<longrightarrow>
      (case max_uart_read sdk s desc data n of
         (r, out, s') \<Rightarrow> s' = s\<lparr>hw := hw s'\<rparr> \<and> mem_fifo s' = mem_fifo s)) \<and>
   (\<forall>a p. desc = Some a \<and> rx_fifo (mem_desc s a) = None \<and> data = Some p \<and> n \<noteq> 0 \<longrightarrow>
      (case MXC_UART_Read sdk (hw s) (MXC_UART_GET_UART (device_id (mem_desc s a))) n of
         (ret, len, bytes, h') \<Rightarrow>
           max_uart_read sdk s desc data n =
             ((if ret \<noteq> E_SUCCESS then - EIO else sint len), bytes, s\<lparr>hw := h'\<rparr>))) \<and>
   (\<forall>a q p. desc = Some a \<and> rx_fifo (mem_desc s a) = Some q \<and> data = Some p \<and> n \<noteq> 0 \<longrightarrow>
      max_uart_read sdk s desc data n =
        ((if fifo_contents (mem_fifo s q) = [] then - EAGAIN
          else int (min (unat n) (length (fifo_contents (mem_fifo s q))))),
         take (unat n) (fifo_contents (mem_fifo s q)),
         s\<lparr>mem_fifo := (mem_fifo s)(q := (mem_fifo s q)
              \<lparr>read_index := read_index (mem_fifo s q) +
                 word_of_nat (min (unat n) (length (fifo_contents (mem_fifo s q))))\<rparr>)\<rparr>)) \<and>
   (\<forall>a q. desc = Some a \<and> rx_fifo (mem_desc s a) = Some q \<longrightarrow>
      (case max_uart_read sdk s desc data n of
         (r, out, s') \<Rightarrow> hw s' = hw s \<and> (\<forall>q'. q' \<noteq> q \<longrightarrow> mem_fifo s' q' = mem_fifo s q')))"
proof (intro conjI allI impI)
  fix r s'
  assume "max_uart_write sdk s desc data n = Some (r, s')"
  then show "s' = s\<lparr>hw := hw s'\<rparr>" and "mem_fifo s' = mem_fifo s"
    by (auto simp: max_uart_write_def split: option.splits if_splits)
next
  fix a p
  assume v: "desc = Some a \<and> data = Some p \<and> n \<noteq> 0"
  let ?u = "MXC_UART_GET_UART (device_id (mem_desc s a))"
  have "max_uart_write sdk s desc data n =
      map_option (\<lambda>(r, h'). (r, s\<lparr>hw := h'\<rparr>)) (max_uart_write_loop sdk ?u p n 0 (hw s))"
    using v by (simp add: max_uart_write_def)
  also have "max_uart_write_loop sdk ?u p n 0 (hw s) =
      Option.bind (wait_tx_empty sdk ?u (hw s))
        (\<lambda>h1. case MXC_UART_Write sdk h1 ?u (ptr_add p 0) (min MXC_UART_FIFO_DEPTH n) of
                (ret, block_size, h2) \<Rightarrow>
                  if ret \<noteq> E_SUCCESS then Some (- EIO, h2)
                  else max_uart_write_loop sdk ?u p (n - block_size) (0 + block_size) h2)"
    using v by (subst max_uart_write_loop.simps) simp
  finally show "max_uart_write sdk s desc data n =
        Option.bind (wait_tx_empty sdk ?u (hw s))
          (\<lambda>h1. case MXC_UART_Write sdk h1 ?u (ptr_add p 0) (min MXC_UART_FIFO_DEPTH n) of
                  (ret, block_size, h2) \<Rightarrow>
                    if ret \<noteq> E_SUCCESS then Some (- EIO, s\<lparr>hw := h2\<rparr>)
                    else map_option (\<lambda>(r, h'). (r, s\<lparr>hw := h'\<rparr>))
                           (max_uart_write_loop sdk ?u p (n - block_size) (0 + block_size) h2))"
    by (cases "wait_tx_empty sdk ?u (hw s)") (auto split: prod.splits)
next
  fix a p
  assume v: "desc = Some a \<and> data = Some p \<and> n \<noteq> 0 \<and>
      (\<forall>h v. fst (MXC_UART_GetStatus sdk h v) AND MXC_F_UART_STAT_TX_EMPTY sdk \<noteq> 0) \<and>
      (\<forall>h v q l. fst (MXC_UART_Write sdk h v q l) = E_SUCCESS \<and>
                  fst (snd (MXC_UART_Write sdk h v q l)) = l)"
  then have ready: "\<forall>h v. fst (MXC_UART_GetStatus sdk h v) AND MXC_F_UART_STAT_TX_EMPTY sdk \<noteq> 0"
    and takes: "\<forall>h v q l. fst (MXC_UART_Write sdk h v q l) = E_SUCCESS \<and>
                  fst (snd (MXC_UART_Write sdk h v q l)) = l"
    by blast+
  from v write_loop_ready [OF ready takes, of _ p n 0]
  show "max_uart_write sdk s desc data n =
        Some (sint n,
              s\<lparr>hw := foldl (poll_and_write sdk (MXC_UART_GET_UART (device_id (mem_desc s a))))
                         (hw s) (spec_chunks p n 0)\<rparr>)"
    by (simp add: max_uart_write_def)
  from spec_chunks_bounds [of p n 0]
  show "\<forall>c \<in> set (spec_chunks p n 0). snd c \<noteq> 0 \<and> snd c \<le> MXC_UART_FIFO_DEPTH"
    and "sum_list (map (\<lambda>c. unat (snd c)) (spec_chunks p n 0)) = unat n"
    by blast+
next
  assume "\<forall>a. desc = Some a \<longrightarrow> rx_fifo (mem_desc s a) = None"
  then show "case max_uart_read sdk s desc data n of
         (r, out, s') \<Rightarrow> s' = s\<lparr>hw := hw s'\<rparr> \<and> mem_fifo s' = mem_fifo s"
    by (auto simp: max_uart_read_def split: option.splits prod.splits)
next
  fix a p
  assume "desc = Some a \<and> rx_fifo (mem_desc s a) = None \<and> data = Some p \<and> n \<noteq> 0"
  then show "case MXC_UART_Read sdk (hw s) (MXC_UART_GET_UART (device_id (mem_desc s a))) n of
         (ret, len, bytes, h') \<Rightarrow>
           max_uart_read sdk s desc data n =
             ((if ret \<noteq> E_SUCCESS then - EIO else sint len), bytes, s\<lparr>hw := h'\<rparr>)"
    by (auto simp: max_uart_read_def split: prod.splits)
next
  fix a q p
  assume v: "desc = Some a \<and> rx_fifo (mem_desc s a) = Some q \<and> data = Some p \<and> n \<noteq> 0"
  then have a: "rx_fifo (mem_desc s a) = Some q" and n: "n \<noteq> 0" by simp_all
  let ?f = "mem_fifo s q"
  let ?m = "min (unat n) (length (fifo_contents ?f))"
  have pos: "0 < unat n" using n by (simp add: unat_gt_0)
  have m0: "?m = 0 \<longleftrightarrow> fifo_contents ?f = []" using pos by (auto simp: min_def)
  have tk: "take ?m (fifo_contents ?f) = take (unat n) (fifo_contents ?f)"
    by (simp add: min_def)
  from v have "max_uart_read sdk s desc data n = max_uart_read sdk s (Some a) (Some p) n"
    by simp
  then show "max_uart_read sdk s desc data n =
        ((if fifo_contents ?f = [] then - EAGAIN else int ?m),
         take (unat n) (fifo_contents ?f),
         s\<lparr>mem_fifo := (mem_fifo s)(q := ?f\<lparr>read_index := read_index ?f + word_of_nat ?m\<rparr>)\<rparr>)"
    unfolding max_uart_read_async [OF a n] Let_def
    by (simp only: m0 tk)
next
  fix a q
  assume "desc = Some a \<and> rx_fifo (mem_desc s a) = Some q"
  then show "case max_uart_read sdk s desc data n of
         (r, out, s') \<Rightarrow> hw s' = hw s \<and> (\<forall>q'. q' \<noteq> q \<longrightarrow> mem_fifo s' q' = mem_fifo s q')"
    by (auto simp: max_uart_read_def split: option.splits prod.splits)
qed

lemma spec_chunks_40: "spec_chunks (Addr_buf 0) 40 0 = [(Addr_buf 0, 32), (Addr_buf 32, 8)]"
  by (subst spec_chunks.simps, subst spec_chunks.simps, subst spec_chunks.simps)
    (simp add: MXC_UART_FIFO_DEPTH_def)

theorem C6_witness:
  "(\<forall>h v. fst (MXC_UART_GetStatus sdk_ready h v) AND MXC_F_UART_STAT_TX_EMPTY sdk_ready \<noteq> 0) \<and>
   (\<forall>h v q l. fst (MXC_UART_Write sdk_ready h v q l) = E_SUCCESS \<and>
               fst (snd (MXC_UART_Write sdk_ready h v q l)) = l) \<and>
   max_uart_write sdk_ready (sys_async fifo_one) (Some 10) (Some (Addr_buf 0)) 40 =
     Some (40, (sys_async fifo_one)\<lparr>hw := \<lparr>calls =
       [Call_UART_GetStatus 0, Call_UART_Write 0 (Addr_buf 0) 32,
        Call_UART_GetStatus 0, Call_UART_Write 0 (Addr_buf 32) 8],
       async_req = (\<lambda>_. None)\<rparr>\<rparr>) \<and>
   rx_fifo (mem_desc sys_sync 10) = None \<and>
   max_uart_read sdk_ready sys_sync (Some 10) (Some (Addr_buf 0)) 1 =
     (1, [0], sys_sync\<lparr>hw := \<lparr>calls = [Call_UART_Read 0 1], async_req = (\<lambda>_. None)\<rparr>\<rparr>) \<and>
   rx_fifo (mem_desc (sys_async fifo_one) 10) = Some 30 \<and>
   fifo_contents fifo_one = [65] \<and>
   max_uart_read sdk_ready (sys_async fifo_one) (Some 10) (Some (Addr_buf 0)) 4 =
     (1, [65], (sys_async fifo_one)\<lparr>mem_fifo := (mem_fifo (sys_async fifo_one))
        (30 := fifo_one\<lparr>read_index := 1\<rparr>)\<rparr>)"
proof -
  note t = C6_blocking_io_and_queues [of sdk_ready "sys_async fifo_one" "Some 10"
      "Some (Addr_buf 0)" 40]
  note u = C6_blocking_io_and_queues [of sdk_ready sys_sync "Some 10" "Some (Addr_buf 0)" 1]
  note w = C6_blocking_io_and_queues [of sdk_ready "sys_async fifo_one" "Some 10"
      "Some (Addr_buf 0)" 4]
  have ready: "\<forall>h v. fst (MXC_UART_GetStatus sdk_ready h v) AND
      MXC_F_UART_STAT_TX_EMPTY sdk_ready \<noteq> 0"
    by (simp add: sdk_ready_def)
  have takes: "\<forall>h v q l. fst (MXC_UART_Write sdk_ready h v q l) = E_SUCCESS \<and>
               fst (snd (MXC_UART_Write sdk_ready h v q l)) = l"
    by (simp add: sdk_ready_def E_SUCCESS_def)
  have n: "rx_fifo (mem_desc sys_sync 10) = None" by (simp add: sys_sync_def sys_reset_def)
  have a: "rx_fifo (mem_desc (sys_async fifo_one) 10) = Some 30" by (simp add: sys_async_simps)
  have c1: "fifo_contents fifo_one = [65]"
    by (simp add: fifo_contents_def fifo_one_def)
  have "Some 10 = Some (10 :: addr) \<and> Some (Addr_buf 0) = Some (Addr_buf 0) \<and>
      (40 :: u32) \<noteq> 0 \<and>
      (\<forall>h v. fst (MXC_UART_GetStatus sdk_ready h v) AND
         MXC_F_UART_STAT_TX_EMPTY sdk_ready \<noteq> 0) \<and>
      (\<forall>h v q l. fst (MXC_UART_Write sdk_ready h v q l) = E_SUCCESS \<and>
         fst (snd (MXC_UART_Write sdk_ready h v q l)) = l)"
    using ready takes by simp
  from t [THEN conjunct2, THEN conjunct2, THEN conjunct1, rule_format, OF this]
  have "max_uart_write sdk_ready (sys_async fifo_one) (Some 10) (Some (Addr_buf 0)) 40 =
        Some (sint (40 :: u32),
              (sys_async fifo_one)\<lparr>hw := foldl (poll_and_write sdk_ready
                  (MXC_UART_GET_UART (device_id (mem_desc (sys_async fifo_one) 10))))
                  (hw (sys_async fifo_one)) (spec_chunks (Addr_buf 0) 40 0)\<rparr>)"
    by blast
  then have 1: "max_uart_write sdk_ready (sys_async fifo_one) (Some 10) (Some (Addr_buf 0)) 40 =
     Some (40, (sys_async fifo_one)\<lparr>hw := \<lparr>calls =
       [Call_UART_GetStatus 0, Call_UART_Write 0 (Addr_buf 0) 32,
        Call_UART_GetStatus 0, Call_UART_Write 0 (Addr_buf 32) 8],
       async_req = (\<lambda>_. None)\<rparr>\<rparr>)"
    by (simp add: spec_chunks_40 poll_and_write_def sdk_ready_def sys_async_simps
        MXC_UART_GET_UART_def)
  have "Some 10 = Some (10 :: addr) \<and> rx_fifo (mem_desc sys_sync 10) = None \<and>
      Some (Addr_buf 0) = Some (Addr_buf 0) \<and> (1 :: u32) \<noteq> 0"
    using n by simp
  from u [THEN conjunct2, THEN conjunct2, THEN conjunct2, THEN conjunct2, THEN conjunct1,
      rule_format, OF this]
  have 2: "max_uart_read sdk_ready sys_sync (Some 10) (Some (Addr_buf 0)) 1 =
     (1, [0], sys_sync\<lparr>hw := \<lparr>calls = [Call_UART_Read 0 1], async_req = (\<lambda>_. None)\<rparr>\<rparr>)"
    by (simp add: sdk_ready_def sys_sync_def sys_reset_def MXC_UART_GET_UART_def E_SUCCESS_def)
  have "Some 10 = Some (10 :: addr) \<and> rx_fifo (mem_desc (sys_async fifo_one) 10) = Some 30 \<and>
      Some (Addr_buf 0) = Some (Addr_buf 0) \<and> (4 :: u32) \<noteq> 0"
    using a by simp
  from w [THEN conjunct2, THEN conjunct2, THEN conjunct2, THEN conjunct2, THEN conjunct2,
      THEN conjunct1, rule_format, OF this]
  have 3: "max_uart_read sdk_ready (sys_async fifo_one) (Some 10) (Some (Addr_buf 0)) 4 =
     (1, [65], (sys_async fifo_one)\<lparr>mem_fifo := (mem_fifo (sys_async fifo_one))
        (30 := fifo_one\<lparr>read_index := 1\<rparr>)\<rparr>)"
    by (simp add: sys_async_simps c1) (simp add: fifo_one_def)
  show ?thesis using ready takes 1 2 3 n a c1 by simp
qed

theorem C6_counterexample:
  "rx_fifo (mem_desc (sys_async fifo_one) 10) = Some 30 \<and>
   fst (max_uart_read sdk_ready (sys_async fifo_one) (Some 10) (Some (Addr_buf 0)) 1) = 1 \<and>
   read_index (mem_fifo (sys_async fifo_one) 30) = 0 \<and>
   read_index (mem_fifo
     (snd (snd (max_uart_read sdk_ready (sys_async fifo_one) (Some 10) (Some (Addr_buf 0)) 1)))
     30) = 1 \<and>
   mem_fifo (snd (snd (max_uart_read sdk_ready (sys_async fifo_one) (Some 10) (Some (Addr_buf 0)) 1)))
     \<noteq> mem_fifo (sys_async fifo_one) \<and>
   hw (snd (snd (max_uart_read sdk_ready (sys_async fifo_one) (Some 10) (Some (Addr_buf 0)) 1)))
     = hw (sys_async fifo_one)"
proof -
  have a: "rx_fifo (mem_desc (sys_async fifo_one) 10) = Some 30" by (simp add: sys_async_simps)
  have n: "(1 :: u32) \<noteq> 0" by simp
  have c1: "fifo_contents fifo_one = [65]"
    by (simp add: fifo_contents_def fifo_one_def)
  have e: "read_index (mem_fifo (sys_async fifo_one) 30) = 0"
    by (simp add: sys_async_simps fifo_one_def)
  have r: "max_uart_read sdk_ready (sys_async fifo_one) (Some 10) (Some (Addr_buf 0)) 1 =
      (1, [65], (sys_async fifo_one)\<lparr>mem_fifo := (mem_fifo (sys_async fifo_one))
         (30 := fifo_one\<lparr>read_index := 1\<rparr>)\<rparr>)"
    unfolding max_uart_read_async [OF a n]
    by (simp add: Let_def sys_async_simps c1) (simp add: fifo_one_def)
  have "mem_fifo ((sys_async fifo_one)\<lparr>mem_fifo := (mem_fifo (sys_async fifo_one))
         (30 := fifo_one\<lparr>read_index := 1\<rparr>)\<rparr>) 30 \<noteq> mem_fifo (sys_async fifo_one) 30"
    by (simp add: sys_async_simps fifo_one_def)
  then have "mem_fifo ((sys_async fifo_one)\<lparr>mem_fifo := (mem_fifo (sys_async fifo_one))
         (30 := fifo_one\<lparr>read_index := 1\<rparr>)\<rparr>) \<noteq> mem_fifo (sys_async fifo_one)"
    by metis
  then show ?thesis
    unfolding r using a e by simp
qed

lemma sdk_called_sel [simp]:
  "hw (sdk_called k s) = (hw s)\<lparr>calls := calls (hw s) @ [k]\<rparr>"
  "live (sdk_called k s) = live s"
  "mem_desc (sdk_called k s) = mem_desc s"
  "mem_max (sdk_called k s) = mem_max s"
  "mem_fifo (sdk_called k s) = mem_fifo s"
  "uart_irq_state (sdk_called k s) = uart_irq_state s"
  "is_callback (sdk_called k s) = is_callback s"
  "static_c (sdk_called k s) = static_c s"
  "irq_callbacks (sdk_called k s) = irq_callbacks s"
  "irq_enabled (sdk_called k s) = irq_enabled s"
  by (simp_all add: sdk_called_def)

lemma init_async_ok:
  assumes "calloc_lf256fifo e = Some q"
    and "ret_no_os_irq_ctrl_init e = 0" and "ret_no_os_irq_register_callback e = 0"
    and "ret_no_os_irq_enable e = 0"
    and "\<not> is_callback s" and "async_req (hw s) (device_id (mem_desc s dsc)) = None"
  shows "max_uart_init_async e u mx dsc s =
     (0, s\<lparr>live := insert (calloc_nvic e) (insert q (live s)),
            mem_fifo := (mem_fifo s)(q := lf256fifo_new),
            mem_desc := (mem_desc s)(dsc := (mem_desc s dsc)\<lparr>rx_fifo := Some q\<rparr>),
            mem_max := (mem_max s)(mx := (mem_max s mx)\<lparr>nvic := Some (calloc_nvic e)\<rparr>),
            irq_callbacks := irq_callbacks s @
              [(MXC_UART_GET_IRQ (device_id (mem_desc s dsc)),
                \<lparr>cb_callback = Fn_uart_rx_callback, cb_ctx = dsc,
                 cb_event = NO_OS_EVT_UART_RX_COMPLETE, cb_peripheral = NO_OS_UART_IRQ,
                 cb_handle = MXC_UART_GET_UART (device_id (mem_desc s dsc))\<rparr>)],
            irq_enabled := insert (MXC_UART_GET_IRQ (device_id (mem_desc s dsc))) (irq_enabled s),
            uart_irq_state := (uart_irq_state s)(device_id (mem_desc s dsc) :=
              (uart_irq_state s (device_id (mem_desc s dsc)))
                \<lparr>uart := MXC_UART_GET_UART (device_id (mem_desc s dsc)), rxData := Some Addr_c,
                 rxLen := 1, txData := None, txLen := 0, rxCnt := 0,
                 callback := Some max_uart_callback\<rparr>),
            hw := (hw s)\<lparr>calls := calls (hw s) @
                     [Call_UART_TransactionAsync (device_id (mem_desc s dsc))],
                   async_req := (async_req (hw s))(device_id (mem_desc s dsc) :=
                     Some (device_id (mem_desc s dsc)))\<rparr>\<rparr>)"
  using assms
  by (simp add: max_uart_init_async_def lf256fifo_init_def no_os_irq_ctrl_init_def
      no_os_irq_register_callback_def no_os_irq_enable_def max_uart_read_nonblocking_def
      MXC_UART_TransactionAsync_def MXC_UART_GET_UART_def Let_def
      E_BUSY_def E_SUCCESS_def EBUSY_def)


lemma init_hw_config_ok:
  assumes "ret_MXC_UART_Init e = E_NO_ERROR" and "ret_MXC_UART_SetDataSize e = E_NO_ERROR"
    and "ret_MXC_UART_SetParity e = E_NO_ERROR" and "ret_MXC_UART_SetStopBits e = E_NO_ERROR"
    and "ret_MXC_UART_SetFlowCtrl e = E_NO_ERROR"
    and "device_id (mem_desc s dsc) < MXC_UART_INSTANCES"
    and "ip_asynchronous_rx p"
  shows "max_uart_init_hw e p ep u mx dsc sz par stp flw out s =
     (case max_uart_init_async e u mx dsc
        (s\<lparr>hw := (hw s)\<lparr>calls := calls (hw s) @
           [Call_UART_Init u (baud_rate (mem_desc s dsc)),
            Call_GPIO_Config (device_id (mem_desc s dsc)) (vssel ep),
            Call_UART_SetDataSize u sz, Call_UART_SetParity u par,
            Call_UART_SetStopBits u stp, Call_UART_SetFlowCtrl u flw 8]\<rparr>\<rparr>) of
        (r, t) \<Rightarrow> (r, Some dsc, t))"
proof -
  from assms(6) have d: "device_id (mem_desc s dsc) = 0 \<or> device_id (mem_desc s dsc) = 1 \<or>
      device_id (mem_desc s dsc) = 2"
    by (auto simp: MXC_UART_INSTANCES_def)
  show ?thesis
    using assms(1-5,7) d
    by (simp add: max_uart_init_hw_def max_uart_pins_config_def sdk_called_def Let_def)
qed


lemma init_async_state:
  assumes "calloc_descriptor e = Some dsc" and "calloc_max_uart e = Some mx"
    and "ret_MXC_UART_Init e = E_NO_ERROR" and "ret_MXC_UART_SetDataSize e = E_NO_ERROR"
    and "ret_MXC_UART_SetParity e = E_NO_ERROR" and "ret_MXC_UART_SetStopBits e = E_NO_ERROR"
    and "ret_MXC_UART_SetFlowCtrl e = E_NO_ERROR" and "calloc_lf256fifo e = Some q"
    and "ret_no_os_irq_ctrl_init e = 0" and "ret_no_os_irq_register_callback e = 0"
    and "ret_no_os_irq_enable e = 0"
    and "dev < MXC_UART_INSTANCES"
    and "\<not> is_callback s" and "async_req (hw s) dev = None"
  shows "max_uart_init e s out (Some (param_115200_8N1 dev vs)) =
     (0, Some dsc,
      s\<lparr>live := insert (calloc_nvic e) (insert q (insert mx (insert dsc (live s)))),
        mem_max := (mem_max s)(mx := \<lparr>nvic = Some (calloc_nvic e)\<rparr>),
        mem_desc := (mem_desc s)(dsc :=
          \<lparr>device_id = dev, baud_rate = 115200, rx_fifo = Some q, extra = Some mx\<rparr>),
        mem_fifo := (mem_fifo s)(q := lf256fifo_new),
        irq_callbacks := irq_callbacks s @
          [(MXC_UART_GET_IRQ dev,
            \<lparr>cb_callback = Fn_uart_rx_callback, cb_ctx = dsc,
             cb_event = NO_OS_EVT_UART_RX_COMPLETE, cb_peripheral = NO_OS_UART_IRQ,
             cb_handle = MXC_UART_GET_UART dev\<rparr>)],
        irq_enabled := insert (MXC_UART_GET_IRQ dev) (irq_enabled s),
        uart_irq_state := (uart_irq_state s)(dev :=
          (uart_irq_state s dev)
            \<lparr>uart := MXC_UART_GET_UART dev, rxData := Some Addr_c, rxLen := 1,
             txData := None, txLen := 0, rxCnt := 0, callback := Some max_uart_callback\<rparr>),
        hw := (hw s)\<lparr>calls := calls (hw s) @
            [Call_UART_Init (MXC_UART_GET_UART dev) 115200, Call_GPIO_Config dev vs,
             Call_UART_SetDataSize (MXC_UART_GET_UART dev) 8,
             Call_UART_SetParity (MXC_UART_GET_UART dev) MXC_UART_PARITY_DISABLE,
             Call_UART_SetStopBits (MXC_UART_GET_UART dev) MXC_UART_STOP_1,
             Call_UART_SetFlowCtrl (MXC_UART_GET_UART dev) MXC_UART_FLOW_DIS 8,
             Call_UART_TransactionAsync dev],
          async_req := (async_req (hw s))(dev := Some dev)\<rparr>\<rparr>)"
proof -
  let ?p = "param_115200_8N1 dev vs"
  let ?u = "MXC_UART_GET_UART dev"
  define s3 where "s3 =
    s\<lparr>live := insert mx (insert dsc (live s)),
      mem_max := (mem_max s)(mx := \<lparr>nvic = None\<rparr>),
      mem_desc := (mem_desc s)(dsc :=
        \<lparr>device_id = dev, baud_rate = 115200, rx_fifo = None, extra = Some mx\<rparr>)\<rparr>"
  define s6 where "s6 =
    s3\<lparr>hw := (hw s3)\<lparr>calls := calls (hw s3) @
      [Call_UART_Init ?u (baud_rate (mem_desc s3 dsc)),
       Call_GPIO_Config (device_id (mem_desc s3 dsc)) vs,
       Call_UART_SetDataSize ?u 8, Call_UART_SetParity ?u MXC_UART_PARITY_DISABLE,
       Call_UART_SetStopBits ?u MXC_UART_STOP_1,
       Call_UART_SetFlowCtrl ?u MXC_UART_FLOW_DIS 8]\<rparr>\<rparr>"
  have top: "max_uart_init e s out (Some ?p) =
      max_uart_init_hw e ?p \<lparr>flow = UART_FLOW_DIS, vssel = vs\<rparr> ?u mx dsc 8
        MXC_UART_PARITY_DISABLE MXC_UART_STOP_1 MXC_UART_FLOW_DIS out s3"
    using assms(1,2)
    by (simp add: max_uart_init_def param_115200_8N1_def no_os_calloc_descriptor_def
        no_os_calloc_max_uart_def Let_def s3_def)
  have d3: "mem_desc s3 dsc =
      \<lparr>device_id = dev, baud_rate = 115200, rx_fifo = None, extra = Some mx\<rparr>"
    by (simp add: s3_def)
  have v3: "device_id (mem_desc s3 dsc) < MXC_UART_INSTANCES"
    using assms(12) by (simp add: d3)
  have ar: "ip_asynchronous_rx ?p" by (simp add: param_115200_8N1_def)
  have hw: "max_uart_init_hw e ?p \<lparr>flow = UART_FLOW_DIS, vssel = vs\<rparr> ?u mx dsc 8
        MXC_UART_PARITY_DISABLE MXC_UART_STOP_1 MXC_UART_FLOW_DIS out s3 =
      (case max_uart_init_async e ?u mx dsc s6 of (r, t) \<Rightarrow> (r, Some dsc, t))"
    unfolding init_hw_config_ok [OF assms(3-7) v3 ar] s6_def by simp
  have d6: "mem_desc s6 dsc = mem_desc s3 dsc" and c6: "\<not> is_callback s6"
    and i6: "async_req (hw s6) (device_id (mem_desc s6 dsc)) = None"
    using assms(13,14) by (simp_all add: s6_def s3_def)
  note as = init_async_ok [OF assms(8-11) c6 i6, of ?u mx]
  show ?thesis
    unfolding top hw as
    by (simp add: d6 d3) (simp add: s6_def s3_def)
qed

lemma init_async_reset:
  "max_uart_init env_ok sys_reset None (Some (param_115200_8N1 0 MXC_GPIO_VSSEL_VDDIO)) =
     (0, Some 10,
      sys_reset\<lparr>live := {40, 30, 20, 10},
        mem_max := (mem_max sys_reset)(20 := \<lparr>nvic = Some 40\<rparr>),
        mem_desc := (mem_desc sys_reset)(10 :=
          \<lparr>device_id = 0, baud_rate = 115200, rx_fifo = Some 30, extra = Some 20\<rparr>),
        mem_fifo := (mem_fifo sys_reset)(30 := lf256fifo_new),
        irq_callbacks :=
          [(UART_IRQn 0,
            \<lparr>cb_callback = Fn_uart_rx_callback, cb_ctx = 10,
             cb_event = NO_OS_EVT_UART_RX_COMPLETE, cb_peripheral = NO_OS_UART_IRQ,
             cb_handle = 0\<rparr>)],
        irq_enabled := {UART_IRQn 0},
        uart_irq_state := (uart_irq_state sys_reset)(0 :=
            \<lparr>uart = 0, txData = None, rxData = Some Addr_c, txLen = 0, rxLen = 1,
             txCnt = 0, rxCnt = 0, callback = Some max_uart_callback\<rparr>),
        hw := \<lparr>calls =
            [Call_UART_Init 0 115200, Call_GPIO_Config 0 MXC_GPIO_VSSEL_VDDIO,
             Call_UART_SetDataSize 0 8,
             Call_UART_SetParity 0 MXC_UART_PARITY_DISABLE,
             Call_UART_SetStopBits 0 MXC_UART_STOP_1,
             Call_UART_SetFlowCtrl 0 MXC_UART_FLOW_DIS 8,
             Call_UART_TransactionAsync 0],
          async_req = (\<lambda>_. None)(0 := Some 0)\<rparr>\<rparr>)"
proof -
  have e: "calloc_descriptor env_ok = Some 10" "calloc_max_uart env_ok = Some 20"
    "ret_MXC_UART_Init env_ok = E_NO_ERROR" "ret_MXC_UART_SetDataSize env_ok = E_NO_ERROR"
    "ret_MXC_UART_SetParity env_ok = E_NO_ERROR" "ret_MXC_UART_SetStopBits env_ok = E_NO_ERROR"
    "ret_MXC_UART_SetFlowCtrl env_ok = E_NO_ERROR" "calloc_lf256fifo env_ok = Some 30"
    "ret_no_os_irq_ctrl_init env_ok = 0" "ret_no_os_irq_register_callback env_ok = 0"
    "ret_no_os_irq_enable env_ok = 0"
    by (simp_all add: env_ok_def E_NO_ERROR_def)
  have v: "(0 :: nat) < MXC_UART_INSTANCES" by (simp add: MXC_UART_INSTANCES_def)
  have c: "\<not> is_callback sys_reset" and i: "async_req (hw sys_reset) 0 = None"
    by (simp_all add: sys_reset_def)
  show ?thesis
    unfolding init_async_state [OF e v c i]
    by (simp add: sys_reset_def env_ok_def MXC_UART_GET_UART_def MXC_UART_GET_IRQ_def)
qed

text \<open>
  Claim C9. With asynchronous receive requested, 115200 baud, 8 data bits, no parity,
  1 stop bit and flow control disabled, on a UART of the chip that holds no request in
  flight, called outside callback dispatch and with collaborators that succeed,
  \<open>max_uart_init\<close> returns 0 and hands back the new descriptor, which is allocated and
  filled in, with an empty queue, the handler registered and the line enabled. The
  peripheral was configured with exactly these settings and then handed one asynchronous
  request, which it holds in flight for that UART and no other: a receive of one byte
  into \<open>c\<close>.
\<close>

theorem C9_init_async_scenario:
  assumes "calloc_descriptor e = Some dsc" and "calloc_max_uart e = Some mx"
    and "ret_MXC_UART_Init e = E_NO_ERROR" and "ret_MXC_UART_SetDataSize e = E_NO_ERROR"
    and "ret_MXC_UART_SetParity e = E_NO_ERROR" and "ret_MXC_UART_SetStopBits e = E_NO_ERROR"
    and "ret_MXC_UART_SetFlowCtrl e = E_NO_ERROR" and "calloc_lf256fifo e = Some q"
    and "ret_no_os_irq_ctrl_init e = 0" and "ret_no_os_irq_register_callback e = 0"
    and "ret_no_os_irq_enable e = 0"
    and "dev < MXC_UART_INSTANCES"
    and "\<not> is_callback s" and "async_req (hw s) dev = None"
  shows "\<exists>s'. max_uart_init e s out (Some (param_115200_8N1 dev vs)) = (0, Some dsc, s') \<and>
     live s' = insert (calloc_nvic e) (insert q (insert mx (insert dsc (live s)))) \<and>
     mem_desc s' dsc =
       \<lparr>device_id = dev, baud_rate = 115200, rx_fifo = Some q, extra = Some mx\<rparr> \<and>
     mem_fifo s' q = lf256fifo_new \<and>
     irq_callbacks s' = irq_callbacks s @
       [(MXC_UART_GET_IRQ dev,
         \<lparr>cb_callback = Fn_uart_rx_callback, cb_ctx = dsc,
          cb_event = NO_OS_EVT_UART_RX_COMPLETE, cb_peripheral = NO_OS_UART_IRQ,
          cb_handle = MXC_UART_GET_UART dev\<rparr>)] \<and>
     MXC_UART_GET_IRQ dev \<in> irq_enabled s' \<and>
     calls (hw s') = calls (hw s) @
       [Call_UART_Init (MXC_UART_GET_UART dev) 115200, Call_GPIO_Config dev vs,
        Call_UART_SetDataSize (MXC_UART_GET_UART dev) 8,
        Call_UART_SetParity (MXC_UART_GET_UART dev) MXC_UART_PARITY_DISABLE,
        Call_UART_SetStopBits (MXC_UART_GET_UART dev) MXC_UART_STOP_1,
        Call_UART_SetFlowCtrl (MXC_UART_GET_UART dev) MXC_UART_FLOW_DIS 8,
        Call_UART_TransactionAsync dev] \<and>
     async_req (hw s') = (async_req (hw s))(dev := Some dev) \<and>
     uart_irq_state s' dev =
       (uart_irq_state s dev)
         \<lparr>uart := MXC_UART_GET_UART dev, rxData := Some Addr_c, rxLen := 1, txData := None,
          txLen := 0, rxCnt := 0, callback := Some max_uart_callback\<rparr>"
  unfolding init_async_state [OF assms]
  apply (intro exI conjI)
          apply (rule refl)
         apply simp_all
  done

theorem C9_witness:
  "calloc_descriptor env_ok = Some 10 \<and> calloc_lf256fifo env_ok = Some 30 \<and>
   (0 :: nat) < MXC_UART_INSTANCES \<and> \<not> is_callback sys_reset \<and>
   async_req (hw sys_reset) 0 = None \<and>
   (\<exists>s'. max_uart_init env_ok sys_reset None
            (Some (param_115200_8N1 0 MXC_GPIO_VSSEL_VDDIO)) = (0, Some 10, s') \<and>
      live s' = {10, 20, 30, 40} \<and>
      async_req (hw s') 0 = Some 0 \<and> async_req (hw s') 1 = None \<and>
      rxLen (uart_irq_state s' 0) = 1 \<and> rxData (uart_irq_state s' 0) = Some Addr_c)"
proof -
  have e: "calloc_descriptor env_ok = Some 10" "calloc_max_uart env_ok = Some 20"
    "ret_MXC_UART_Init env_ok = E_NO_ERROR" "ret_MXC_UART_SetDataSize env_ok = E_NO_ERROR"
    "ret_MXC_UART_SetParity env_ok = E_NO_ERROR" "ret_MXC_UART_SetStopBits env_ok = E_NO_ERROR"
    "ret_MXC_UART_SetFlowCtrl env_ok = E_NO_ERROR" "calloc_lf256fifo env_ok = Some 30"
    "ret_no_os_irq_ctrl_init env_ok = 0" "ret_no_os_irq_register_callback env_ok = 0"
    "ret_no_os_irq_enable env_ok = 0"
    by (simp_all add: env_ok_def E_NO_ERROR_def)
  have v: "(0 :: nat) < MXC_UART_INSTANCES" by (simp add: MXC_UART_INSTANCES_def)
  have c: "\<not> is_callback sys_reset" and i: "async_req (hw sys_reset) 0 = None"
    by (simp_all add: sys_reset_def)
  from C9_init_async_scenario [OF e v c i, of None MXC_GPIO_VSSEL_VDDIO]
  obtain s' where r: "max_uart_init env_ok sys_reset None
            (Some (param_115200_8N1 0 MXC_GPIO_VSSEL_VDDIO)) = (0, Some 10, s')"
    and l: "live s' = insert (calloc_nvic env_ok) (insert 30 (insert 20 (insert 10 (live sys_reset))))"
    and a: "async_req (hw s') = (async_req (hw sys_reset))(0 := Some 0)"
    and u: "uart_irq_state s' 0 =
       (uart_irq_state sys_reset 0)
         \<lparr>uart := MXC_UART_GET_UART 0, rxData := Some Addr_c, rxLen := 1, txData := None,
          txLen := 0, rxCnt := 0, callback := Some max_uart_callback\<rparr>"
    by blast
  show ?thesis
    using e(1,8) v c i r a u l by (auto simp: sys_reset_def env_ok_def)
qed

lemmas init_defs =
  max_uart_init_def max_uart_init_hw_def max_uart_init_async_def
  param_115200_8N1_def no_os_calloc_descriptor_def no_os_calloc_max_uart_def
  max_uart_pins_config_def lf256fifo_init_def no_os_irq_ctrl_init_def
  no_os_irq_register_callback_def no_os_irq_enable_def max_uart_read_nonblocking_def
  MXC_UART_TransactionAsync_def sdk_called_def MXC_UART_GET_UART_def MXC_UART_GET_IRQ_def
  error_desc_def error_max_def error_uart_def error_nvic_def no_os_free_def
  no_os_irq_ctrl_remove_def MXC_UART_Shutdown_def
  E_NO_ERROR_def E_BUSY_def E_SUCCESS_def EBUSY_def ENOMEM_def EINVAL_def

text \<open>
  Claim C1 at a failing input. Asynchronous receive is requested on UART 0 from the state
  at program start and the creation of the interrupt controller fails for lack of memory.
  \<open>max_uart_init\<close> returns \<open>-ENOMEM\<close> through the label \<open>error_uart\<close>: the descriptor
  and its extra state are released, but the queue that \<open>lf256fifo_init\<close> had created
  stays allocated, and the caller's \<open>*desc\<close>, stored to before the asynchronous part
  began, still holds the address of the released descriptor.
\<close>

theorem C1_init_failure_leaves_queue_and_handle:
  "(case max_uart_init (env_ok\<lparr>ret_no_os_irq_ctrl_init := - ENOMEM\<rparr>) sys_reset None
           (Some (param_115200_8N1 0 MXC_GPIO_VSSEL_VDDIO)) of
      (ret, out, s') \<Rightarrow>
        ret = - ENOMEM \<and> out = Some 10 \<and> 10 \<notin> live s' \<and>
        rx_fifo (mem_desc s' 10) = Some 30 \<and> 30 \<in> live s' \<and> live s' = {30})"
  by (simp add: init_defs env_ok_def sys_reset_def Let_def) auto

text \<open>
  Claim C5 at a failing input. After a successful init with asynchronous receive on
  UART 0, \<open>max_uart_remove\<close> on the handle returns 0, shuts the peripheral down and
  releases the descriptor and its extra state; the queue created at init and the
  interrupt controller stay allocated.
\<close>

theorem C5_remove_leaves_queue_allocated:
  "(case max_uart_init env_ok sys_reset None
           (Some (param_115200_8N1 0 MXC_GPIO_VSSEL_VDDIO)) of
      (ret, out, s) \<Rightarrow>
        ret = 0 \<and> out = Some 10 \<and> live s = {40, 30, 20, 10} \<and>
        rx_fifo (mem_desc s 10) = Some 30 \<and> nvic (mem_max s 20) = Some 40 \<and>
        (case max_uart_remove s out of
           (ret', s') \<Rightarrow>
             ret' = 0 \<and> calls (hw s') = calls (hw s) @ [Call_UART_Shutdown 0] \<and>
             10 \<notin> live s' \<and> 20 \<notin> live s' \<and> 30 \<in> live s' \<and> live s' = {40, 30}))"
  unfolding init_async_reset
  by (simp add: max_uart_remove_def MXC_UART_Shutdown_def sdk_called_def no_os_free_def
      MXC_UART_GET_UART_def Let_def) auto

end
